theory Spec2Isabelle
  imports Main "HOL-Library.Sublist"
begin

section \<open>Python values, errors and the runtime\<close>

text \<open>
  The module \<^verbatim>\<open>pelican/contents.py\<close> is Python 2 code over dynamically typed values.
  The values that reach it are modelled by \<open>pyval\<close>: \<^verbatim>\<open>None\<close>, booleans, integers, text,
  \<^verbatim>\<open>datetime\<close> instants (an integer count on the time line), tuples, lists, dictionaries
  with text keys (association lists; the first entry of a key is the one in force) and
  the \<^verbatim>\<open>URLWrapper\<close> objects of the module itself. Text is a \<open>string\<close>; the case
  conversions below act on the ASCII letters and carry every other character through.
\<close>

datatype wrapper_class = URLWrapper | Category | Tag | Author

datatype 'v urlwrapper =
  Wrapper (wclass: wrapper_class) (name: string) (slug: string) (wsettings: "(string \<times> 'v) list")

datatype pyval =
    PNone
  | PBool bool
  | PInt int
  | PStr string
  | PDate int
  | PTuple "pyval list"
  | PList "pyval list"
  | PDict "(string \<times> pyval) list"
  | PWrapper "pyval urlwrapper"

type_synonym pydict = "(string \<times> pyval) list"

text \<open>
  Every \<^verbatim>\<open>raise\<close> is a value. \<open>Unsupported\<close> is not a Python exception: it marks an
  input on which Python goes on but which lies outside what is modelled here (the
  \<^verbatim>\<open>repr\<close> of a container, a format field with a conversion or a format specification,
  a metadata key that replaces one of the object's own fields or methods, a setting of
  an unexpected Python type).
\<close>

datatype error =
    NameError string
  | KeyError string
  | AttributeError string
  | TypeError string
  | ValueError string
  | IndexError string
  | LocaleError string
  | Unsupported string

text \<open>
  What the module imports and calls but does not define is a parameter:
  \<^verbatim>\<open>_DEFAULT_CONFIG\<close>, \<^verbatim>\<open>slugify\<close> and \<^verbatim>\<open>truncate_html_words\<close> of the
  package, the clock \<^verbatim>\<open>datetime.now()\<close>, \<^verbatim>\<open>locale.setlocale\<close> (the exception it
  raises on a locale it does not accept, if any), \<^verbatim>\<open>strftime\<close> with the decoding that
  follows it (its first argument is the locale the constructor has set, \<open>None\<close> for the
  locale the process was in), \<^verbatim>\<open>str\<close> of a \<^verbatim>\<open>datetime\<close>, the working directory and the
  built-in \<^verbatim>\<open>hash\<close> on text.
\<close>

record runtime =
  default_config :: pydict
  slugify :: "string \<Rightarrow> string"
  truncate_html_words :: "string \<Rightarrow> pyval \<Rightarrow> error + string"
  now :: int
  setlocale :: "pyval \<Rightarrow> error option"
  strftime :: "pyval option \<Rightarrow> int \<Rightarrow> string \<Rightarrow> string"
  date_str :: "int \<Rightarrow> string"
  getcwd :: string
  py_hash :: "string \<Rightarrow> int"

subsection \<open>Text helpers\<close>

definition upper_letters :: string where
  "upper_letters = ''ABCDEFGHIJKLMNOPQRSTUVWXYZ''"

definition lower_letters :: string where
  "lower_letters = ''abcdefghijklmnopqrstuvwxyz''"

definition lower_char :: "char \<Rightarrow> char" where
  "lower_char c = (case map_of (zip upper_letters lower_letters) c of None \<Rightarrow> c | Some d \<Rightarrow> d)"

definition upper_char :: "char \<Rightarrow> char" where
  "upper_char c = (case map_of (zip lower_letters upper_letters) c of None \<Rightarrow> c | Some d \<Rightarrow> d)"

definition lower :: "string \<Rightarrow> string" where
  "lower s = map lower_char s"

definition upper :: "string \<Rightarrow> string" where
  "upper s = map upper_char s"

text \<open>
  \<^verbatim>\<open>unicode.isspace\<close> on the code points below 256: the ASCII white space, the
  separators 0x1C to 0x1F, NEL (0x85) and the no-break space (0xA0).
\<close>

definition py_isspace :: "char \<Rightarrow> bool" where
  "py_isspace c \<longleftrightarrow>
     (let n = (of_char c :: nat)
      in (9 \<le> n \<and> n \<le> 13) \<or> (28 \<le> n \<and> n \<le> 32) \<or> n = 133 \<or> n = 160)"

definition strip :: "string \<Rightarrow> string" where
  "strip s = rev (dropWhile py_isspace (rev (dropWhile py_isspace s)))"

definition startswith :: "string \<Rightarrow> string \<Rightarrow> bool" where
  "startswith s p = prefix p s"

definition digit_char :: "nat \<Rightarrow> char" where
  "digit_char d = char_of (48 + d)"

function show_nat :: "nat \<Rightarrow> string" where
  "show_nat n = (if n < 10 then [digit_char n] else show_nat (n div 10) @ [digit_char (n mod 10)])"
  by pat_completeness auto
termination
  by (relation "measure id") auto

definition show_int :: "int \<Rightarrow> string" where
  "show_int i = (if i < 0 then CHR ''-'' # show_nat (nat (- i)) else show_nat (nat i))"

subsection \<open>Truth value and text rendering of a value\<close>

text \<open>Python's truth test, as in \<^verbatim>\<open>if not metadata\<close>; a plain object is true.\<close>

fun truthy :: "pyval \<Rightarrow> bool" where
  "truthy PNone = False"
| "truthy (PBool b) = b"
| "truthy (PInt i) = (i \<noteq> 0)"
| "truthy (PStr s) = (s \<noteq> [])"
| "truthy (PDate d) = True"
| "truthy (PTuple xs) = (xs \<noteq> [])"
| "truthy (PList xs) = (xs \<noteq> [])"
| "truthy (PDict kvs) = (kvs \<noteq> [])"
| "truthy (PWrapper w) = True"

text \<open>
  \<^verbatim>\<open>unicode(x)\<close>, and \<^verbatim>\<open>str(x)\<close> alike. A \<^verbatim>\<open>URLWrapper\<close> renders as its name
  (\<^verbatim>\<open>__unicode__\<close>, \<^verbatim>\<open>__str__\<close>); the \<^verbatim>\<open>repr\<close> of a container is not modelled.
\<close>

fun py_unicode :: "runtime \<Rightarrow> pyval \<Rightarrow> error + string" where
  "py_unicode rt PNone = Inr ''None''"
| "py_unicode rt (PBool b) = Inr (if b then ''True'' else ''False'')"
| "py_unicode rt (PInt i) = Inr (show_int i)"
| "py_unicode rt (PStr s) = Inr s"
| "py_unicode rt (PDate d) = Inr (date_str rt d)"
| "py_unicode rt (PTuple xs) = Inl (Unsupported ''repr'')"
| "py_unicode rt (PList xs) = Inl (Unsupported ''repr'')"
| "py_unicode rt (PDict kvs) = Inl (Unsupported ''repr'')"
| "py_unicode rt (PWrapper w) = Inr (name w)"

section \<open>URLWrapper, Category, Tag, Author\<close>

text \<open>
  \<^verbatim>\<open>URLWrapper.__init__(self, name, settings)\<close>: the name is \<^verbatim>\<open>unicode(name)\<close>, the
  slug is \<^verbatim>\<open>slugify(self.name)\<close>. The first argument of the model is the class that
  is instantiated.
\<close>

definition URLWrapper_init ::
  "runtime \<Rightarrow> wrapper_class \<Rightarrow> pyval \<Rightarrow> pydict \<Rightarrow> error + pyval urlwrapper" where
  "URLWrapper_init rt c nm st =
     (case py_unicode rt nm of
        Inl e \<Rightarrow> Inl e
      | Inr n \<Rightarrow> Inr (Wrapper c n (slugify rt n) st))"

text \<open>
  \<^verbatim>\<open>Tag.__init__(self, name, *args, **kwargs)\<close> passes \<^verbatim>\<open>unicode.strip(name)\<close> on;
  \<^verbatim>\<open>unicode.strip\<close> takes text only, so the name is a \<open>string\<close> here.
\<close>

definition Tag_init :: "runtime \<Rightarrow> string \<Rightarrow> pydict \<Rightarrow> error + pyval urlwrapper" where
  "Tag_init rt nm st = URLWrapper_init rt Tag (PStr (strip nm)) st"

text \<open>\<^verbatim>\<open>__hash__\<close> is \<^verbatim>\<open>hash(self.name)\<close>.\<close>

definition URLWrapper_hash :: "runtime \<Rightarrow> pyval urlwrapper \<Rightarrow> int" where
  "URLWrapper_hash rt w = py_hash rt (name w)"

text \<open>\<^verbatim>\<open>__eq__(self, other)\<close> is \<^verbatim>\<open>self.name == unicode(other)\<close>.\<close>

definition URLWrapper_eq :: "runtime \<Rightarrow> pyval urlwrapper \<Rightarrow> pyval \<Rightarrow> error + bool" where
  "URLWrapper_eq rt w other =
     (case py_unicode rt other of
        Inl e \<Rightarrow> Inl e
      | Inr u \<Rightarrow> Inr (name w = u))"

definition URLWrapper_unicode :: "pyval urlwrapper \<Rightarrow> string" where
  "URLWrapper_unicode w = name w"

section \<open>Library functions the module calls\<close>

subsection \<open>Paths (\<^verbatim>\<open>os.path\<close> on POSIX)\<close>

text \<open>\<^verbatim>\<open>s.split('/')\<close>: the pieces between the slashes, one piece for a text without any.\<close>

fun split_sep :: "string \<Rightarrow> string list" where
  "split_sep [] = [[]]"
| "split_sep (c # cs) =
     (if c = CHR ''/'' then [] # split_sep cs
      else (case split_sep cs of
              [] \<Rightarrow> [[c]]
            | x # xs \<Rightarrow> (c # x) # xs))"

definition join_sep :: "string list \<Rightarrow> string" where
  "join_sep comps = (case comps of [] \<Rightarrow> [] | x # xs \<Rightarrow> foldl (\<lambda>acc y. acc @ ''/'' @ y) x xs)"

definition endswith_sep :: "string \<Rightarrow> bool" where
  "endswith_sep s \<longleftrightarrow> s \<noteq> [] \<and> last s = CHR ''/''"

text \<open>One round of the loop of \<^verbatim>\<open>os.path.join(a, *p)\<close>, and the call with two arguments.\<close>

definition os_path_join :: "string \<Rightarrow> string \<Rightarrow> string" where
  "os_path_join path b =
     (if startswith b ''/'' then b
      else if path = [] \<or> endswith_sep path then path @ b
      else path @ ''/'' @ b)"

definition os_path_dirname :: "string \<Rightarrow> string" where
  "os_path_dirname p =
     (let head = rev (dropWhile (\<lambda>c. c \<noteq> CHR ''/'') (rev p))
      in if head \<noteq> [] \<and> (\<exists>c \<in> set head. c \<noteq> CHR ''/'')
         then rev (dropWhile (\<lambda>c. c = CHR ''/'') (rev head))
         else head)"

text \<open>
  The loop of \<^verbatim>\<open>normpath\<close> over the components; \<open>rooted\<close> says whether the path had
  initial slashes, \<open>new_comps\<close> is the stack built so far.
\<close>

fun norm_comps :: "bool \<Rightarrow> string list \<Rightarrow> string list \<Rightarrow> string list" where
  "norm_comps rooted new_comps [] = new_comps"
| "norm_comps rooted new_comps (piece # comps) =
     (if piece = [] \<or> piece = ''.'' then norm_comps rooted new_comps comps
      else if piece \<noteq> ''..'' \<or> (\<not> rooted \<and> new_comps = [])
              \<or> (new_comps \<noteq> [] \<and> last new_comps = ''..'')
        then norm_comps rooted (new_comps @ [piece]) comps
      else if new_comps \<noteq> [] then norm_comps rooted (butlast new_comps) comps
      else norm_comps rooted new_comps comps)"

definition os_path_normpath :: "string \<Rightarrow> string" where
  "os_path_normpath path =
     (if path = [] then ''.''
      else
        let initial_slashes =
              (if startswith path ''/''
               then (if startswith path ''//'' \<and> \<not> startswith path ''///'' then 2 else 1)
               else (0::nat));
            comps = norm_comps (initial_slashes \<noteq> 0) [] (split_sep path);
            p = replicate initial_slashes CHR ''/'' @ join_sep comps
        in if p = [] then ''.'' else p)"

definition os_path_abspath :: "runtime \<Rightarrow> string \<Rightarrow> string" where
  "os_path_abspath rt path =
     os_path_normpath (if startswith path ''/'' then path else os_path_join (getcwd rt) path)"

definition os_path_relpath :: "runtime \<Rightarrow> string \<Rightarrow> string \<Rightarrow> error + string" where
  "os_path_relpath rt path start =
     (if path = [] then Inl (ValueError ''no path specified'')
      else
        let start_list = filter (\<lambda>x. x \<noteq> []) (split_sep (os_path_abspath rt start));
            path_list = filter (\<lambda>x. x \<noteq> []) (split_sep (os_path_abspath rt path));
            i = length (longest_common_prefix start_list path_list);
            rel_list = replicate (length start_list - i) ''..'' @ drop i path_list
        in (case rel_list of
              [] \<Rightarrow> Inr ''.''
            | x # xs \<Rightarrow> Inr (foldl os_path_join x xs)))"

subsection \<open>The pattern of \<^verbatim>\<open>_update_content\<close> and \<^verbatim>\<open>re.sub\<close>\<close>

text \<open>
  The compiled pattern is, with the white space and comments of \<^verbatim>\<open>re.X\<close> removed,
  \<^verbatim>\<open>(?P<markup><\s*[^\>]*(?:href|src)\s*=)(?P<quote>["\'])(?P<path>\|(?P<what>.*?)\|(?P<value>.*?))\2\<close>.
  Without \<^verbatim>\<open>re.UNICODE\<close>, \<^verbatim>\<open>\s\<close> is one of the six ASCII white-space characters, and
  \<^verbatim>\<open>.\<close> is any character but the newline.
\<close>

definition re_space :: "char \<Rightarrow> bool" where
  "re_space c \<longleftrightarrow> c \<in> set [CHR '' '', CHR 0x09, CHR 0x0A, CHR 0x0D, CHR 0x0C, CHR 0x0B]"

record href_match =
  markup :: string
  quote :: char
  what :: string
  val :: string

definition path :: "href_match \<Rightarrow> string" where
  "path m = CHR ''|'' # what m @ CHR ''|'' # val m"

definition match_text :: "href_match \<Rightarrow> string" where
  "match_text m = markup m @ [quote m] @ path m @ [quote m]"

text \<open>
  The pattern from \<^verbatim>\<open>(?:href|src)\<close> on, tried at the head of \<open>t\<close>. Nothing is left to
  choose here: \<^verbatim>\<open>\s*\<close> must take all the white space in front of the \<^verbatim>\<open>=\<close>; the lazy
  \<^verbatim>\<open>what\<close> stops at the first \<^verbatim>\<open>|\<close> and the lazy \<^verbatim>\<open>value\<close> at the first closing
  quote, neither crossing a newline (stopping later would meet the same obstacle). The
  \<open>markup\<close> of the result is only the attribute name up to the \<^verbatim>\<open>=\<close>.
\<close>

definition match_attr :: "string \<Rightarrow> href_match option" where
  "match_attr t =
     (case (if prefix ''href'' t then Some (4::nat) else if prefix ''src'' t then Some 3 else None) of
        None \<Rightarrow> None
      | Some n \<Rightarrow>
         (let t1 = drop n t;
              ws = takeWhile re_space t1
          in (case dropWhile re_space t1 of
                e # q # b # t3 \<Rightarrow>
                  if e = CHR ''='' \<and> (q = CHR 0x22 \<or> q = CHR 0x27) \<and> b = CHR ''|'' then
                    (let stop_what = (\<lambda>c. c \<noteq> CHR ''|'' \<and> c \<noteq> CHR 0x0A);
                         stop_val = (\<lambda>c. c \<noteq> q \<and> c \<noteq> CHR 0x0A)
                     in (case dropWhile stop_what t3 of
                           b2 # t5 \<Rightarrow>
                             if b2 = CHR ''|'' then
                               (case dropWhile stop_val t5 of
                                  q2 # t7 \<Rightarrow>
                                    if q2 = q then
                                      Some \<lparr>markup = take n t @ ws @ ''='', quote = q,
                                            what = takeWhile stop_what t3,
                                            val = takeWhile stop_val t5\<rparr>
                                    else None
                                | [] \<Rightarrow> None)
                             else None
                         | [] \<Rightarrow> None))
                  else None
              | _ \<Rightarrow> None)))"

text \<open>
  \<^verbatim>\<open>\s*[^\>]*\<close> after the \<^verbatim>\<open><\<close>: both are greedy, so the backtracking matcher tries the
  longest run without \<^verbatim>\<open>>\<close> first and gives characters back one at a time; the
  attribute it settles on is the last one in the run from which the rest of the pattern
  matches.
\<close>

fun match_markup :: "string \<Rightarrow> href_match option" where
  "match_markup [] = match_attr []"
| "match_markup (c # cs) =
     (case (if c = CHR ''>'' then None else match_markup cs) of
        Some m \<Rightarrow> Some (m\<lparr>markup := c # markup m\<rparr>)
      | None \<Rightarrow> match_attr (c # cs))"

text \<open>A match of the whole pattern at the head of \<open>s\<close>.\<close>

definition hrefs_match :: "string \<Rightarrow> href_match option" where
  "hrefs_match s =
     (case s of
        [] \<Rightarrow> None
      | c # cs \<Rightarrow>
          if c = CHR ''<'' then map_option (\<lambda>m. m\<lparr>markup := c # markup m\<rparr>) (match_markup cs)
          else None)"

text \<open>
  \<^verbatim>\<open>hrefs.sub(replacer, content)\<close>: the leftmost match is replaced by what the callback
  returns and the scan goes on behind it; where nothing matches, the character is
  copied. An exception in the callback ends the call.
\<close>

function hrefs_sub :: "(href_match \<Rightarrow> error + string) \<Rightarrow> string \<Rightarrow> error + string" where
  "hrefs_sub repl [] = Inr []"
| "hrefs_sub repl (c # cs) =
     (case hrefs_match (c # cs) of
        None \<Rightarrow> (case hrefs_sub repl cs of Inl e \<Rightarrow> Inl e | Inr out \<Rightarrow> Inr (c # out))
      | Some m \<Rightarrow>
          (case repl m of
             Inl e \<Rightarrow> Inl e
           | Inr r \<Rightarrow>
               (case hrefs_sub repl (drop (length (match_text m)) (c # cs)) of
                  Inl e \<Rightarrow> Inl e
                | Inr out \<Rightarrow> Inr (r @ out))))"
  by pat_completeness auto
termination
  by (relation "measure (\<lambda>(repl, s). length s)") (auto simp: match_text_def)

subsection \<open>\<^verbatim>\<open>str.format\<close> with keyword arguments\<close>

text \<open>
  A replacement field is resolved against the keyword arguments. The fragment modelled
  is the plain field \<^verbatim>\<open>{name}\<close>, rendered as \<^verbatim>\<open>format(value, '')\<close>, which is the text
  of the value; a field with an attribute, an index, a conversion or a format
  specification is \<open>Unsupported\<close>. An empty or numeric field asks for a positional
  argument, and there is none.
\<close>

definition format_field :: "runtime \<Rightarrow> pydict \<Rightarrow> string \<Rightarrow> error + string" where
  "format_field rt kwargs fld =
     (if \<exists>c \<in> set fld. c \<in> set ''{!:.['' then Inl (Unsupported ''format field'')
      else if \<forall>c \<in> set fld. c \<in> set ''0123456789''
        then Inl (IndexError ''tuple index out of range'')
      else (case map_of kwargs fld of
              None \<Rightarrow> Inl (KeyError fld)
            | Some v \<Rightarrow> py_unicode rt v))"

text \<open>
  The scan of the template, left to right. The second argument is \<open>None\<close> in literal
  text and holds the characters read so far inside a field. \<^verbatim>\<open>{{\<close> and \<^verbatim>\<open>}}\<close> are the
  escaped braces.
\<close>

fun format_scan :: "(string \<Rightarrow> error + string) \<Rightarrow> string option \<Rightarrow> string \<Rightarrow> error + string" where
  "format_scan f None [] = Inr []"
| "format_scan f (Some fld) [] = Inl (ValueError ''unmatched { in format'')"
| "format_scan f None (c # cs) =
     (if c = CHR ''{'' then
        (case cs of
           [] \<Rightarrow> Inl (ValueError ''Single { encountered in format string'')
         | d # ds \<Rightarrow>
             if d = CHR ''{''
             then (case format_scan f None ds of Inl e \<Rightarrow> Inl e | Inr out \<Rightarrow> Inr (c # out))
             else format_scan f (Some []) cs)
      else if c = CHR ''}'' then
        (case cs of
           [] \<Rightarrow> Inl (ValueError ''Single } encountered in format string'')
         | d # ds \<Rightarrow>
             if d = CHR ''}''
             then (case format_scan f None ds of Inl e \<Rightarrow> Inl e | Inr out \<Rightarrow> Inr (c # out))
             else Inl (ValueError ''Single } encountered in format string''))
      else (case format_scan f None cs of Inl e \<Rightarrow> Inl e | Inr out \<Rightarrow> Inr (c # out)))"
| "format_scan f (Some fld) (c # cs) =
     (if c = CHR ''}'' then
        (case f fld of
           Inl e \<Rightarrow> Inl e
         | Inr r \<Rightarrow> (case format_scan f None cs of Inl e \<Rightarrow> Inl e | Inr out \<Rightarrow> Inr (r @ out)))
      else format_scan f (Some (fld @ [c])) cs)"

definition py_format :: "runtime \<Rightarrow> string \<Rightarrow> pydict \<Rightarrow> error + string" where
  "py_format rt template kwargs = format_scan (format_field rt kwargs) None template"

section \<open>Page, Article, Quote\<close>

datatype page_class = Page | Article | Quote

fun class_name :: "page_class \<Rightarrow> string" where
  "class_name Page = ''Page''"
| "class_name Article = ''Article''"
| "class_name Quote = ''Quote''"

text \<open>The class attributes; \<^verbatim>\<open>Quote\<close> inherits both from \<^verbatim>\<open>Page\<close>.\<close>

fun mandatory_properties :: "page_class \<Rightarrow> string list" where
  "mandatory_properties Page = [''title'']"
| "mandatory_properties Article = [''title'', ''date'', ''category'']"
| "mandatory_properties Quote = [''title'']"

fun default_template :: "page_class \<Rightarrow> string" where
  "default_template Page = ''page''"
| "default_template Article = ''article''"
| "default_template Quote = ''page''"

text \<open>
  The object. \<open>attrs\<close> is the open part of its \<^verbatim>\<open>__dict__\<close>: what \<^verbatim>\<open>setattr\<close> stores
  from the metadata, and \<^verbatim>\<open>template\<close>, \<^verbatim>\<open>author\<close>, \<^verbatim>\<open>lang\<close>, \<^verbatim>\<open>slug\<close>,
  \<^verbatim>\<open>filename\<close>, \<^verbatim>\<open>date_format\<close>, \<^verbatim>\<open>locale_date\<close> and \<^verbatim>\<open>status\<close>, so that
  \<^verbatim>\<open>hasattr(self, k)\<close> is \<open>attrs p k \<noteq> None\<close>. The attributes the constructor always
  sets itself are fields: \<^verbatim>\<open>settings\<close>, \<^verbatim>\<open>_content\<close>, \<^verbatim>\<open>metadata\<close>,
  \<^verbatim>\<open>in_default_lang\<close>, and \<^verbatim>\<open>_summary\<close>, which exists or not. \<^verbatim>\<open>_context\<close> is a
  reference to the orchestrator's shared mapping, which holds pages in turn; the methods
  that read it take it as an argument. \<^verbatim>\<open>translations\<close> starts empty and is not read
  in this module.
\<close>

record page =
  pclass :: page_class
  settings :: pydict
  content_raw :: string
  metadata :: pydict
  attrs :: "string \<rightharpoonup> pyval"
  in_default_lang :: bool
  summary_attr :: "pyval option"

record site_context =
  filenames :: "string \<rightharpoonup> page"
  localsiteurl :: string

definition ebind :: "error + 'a \<Rightarrow> ('a \<Rightarrow> error + 'b) \<Rightarrow> error + 'b" where
  "ebind m f = (case m of Inl e \<Rightarrow> Inl e | Inr x \<Rightarrow> f x)"

subsection \<open>Metadata and \<^verbatim>\<open>setattr\<close>\<close>

text \<open>\<^verbatim>\<open>d[k] = v\<close> on a dictionary with unique keys.\<close>

fun dict_set :: "string \<Rightarrow> pyval \<Rightarrow> pydict \<Rightarrow> pydict" where
  "dict_set k v [] = [(k, v)]"
| "dict_set k v ((k', v') # kvs) = (if k = k' then (k, v) # kvs else (k', v') # dict_set k v kvs)"

definition dict_update :: "pydict \<Rightarrow> pydict \<Rightarrow> pydict" where
  "dict_update d other = fold (\<lambda>(k, v) acc. dict_set k v acc) other d"

text \<open>
  \<^verbatim>\<open>dict(x)\<close> for the value of \<^verbatim>\<open>DEFAULT_METADATA\<close>: a dictionary, or a sequence of
  pairs with text keys.
\<close>

fun pair_of :: "pyval \<Rightarrow> (string \<times> pyval) option" where
  "pair_of (PTuple [PStr k, v]) = Some (k, v)"
| "pair_of (PList [PStr k, v]) = Some (k, v)"
| "pair_of _ = None"

fun dict_of_pairs :: "pyval list \<Rightarrow> error + pydict" where
  "dict_of_pairs [] = Inr []"
| "dict_of_pairs (x # xs) =
     (case pair_of x of
        None \<Rightarrow> Inl (Unsupported ''DEFAULT_METADATA'')
      | Some (k, v) \<Rightarrow>
          (case dict_of_pairs xs of
             Inl e \<Rightarrow> Inl e
           | Inr d \<Rightarrow> Inr (dict_update [(k, v)] d)))"

fun py_dict :: "pyval \<Rightarrow> error + pydict" where
  "py_dict (PDict d) = Inr d"
| "py_dict (PTuple xs) = dict_of_pairs xs"
| "py_dict (PList xs) = dict_of_pairs xs"
| "py_dict _ = Inl (Unsupported ''DEFAULT_METADATA'')"

text \<open>
  \<^verbatim>\<open>setattr(self, key.lower(), value)\<close>. \<^verbatim>\<open>summary\<close> is a property whose setter does
  nothing; \<^verbatim>\<open>url\<close>, \<^verbatim>\<open>save_as\<close>, \<^verbatim>\<open>content\<close>, \<^verbatim>\<open>url_format\<close> and
  \<^verbatim>\<open>relative_dir\<close> are properties without a setter. A name that would replace a field
  or a method of the object (every private name among them) is not modelled.
\<close>

definition readonly_names :: "string list" where
  "readonly_names = [''url'', ''save_as'', ''content'', ''url_format'', ''relative_dir'']"

definition own_names :: "string list" where
  "own_names = [''settings'', ''translations'', ''metadata'', ''in_default_lang'',
     ''mandatory_properties'', ''default_template'', ''base_properties'', ''check_properties'',
     ''get_url_setting'', ''get_content'', ''get_relative_filename'']"

definition setattr :: "(string \<rightharpoonup> pyval) \<Rightarrow> string \<Rightarrow> pyval \<Rightarrow> error + (string \<rightharpoonup> pyval)" where
  "setattr a k v =
     (if k = ''summary'' then Inr a
      else if k \<in> set readonly_names then Inl (AttributeError k)
      else if k \<in> set own_names \<or> startswith k ''_'' then Inl (Unsupported k)
      else Inr (a(k \<mapsto> v)))"

text \<open>
  The loop \<^verbatim>\<open>for key, value in local_metadata.items()\<close>. Python visits the entries in
  the hash order of the keys; the order of the list stands for it.
\<close>

fun set_metadata_attrs :: "(string \<rightharpoonup> pyval) \<Rightarrow> pydict \<Rightarrow> error + (string \<rightharpoonup> pyval)" where
  "set_metadata_attrs a [] = Inr a"
| "set_metadata_attrs a ((k, v) # kvs) =
     (case setattr a (lower k) v of
        Inl e \<Rightarrow> Inl e
      | Inr a' \<Rightarrow> set_metadata_attrs a' kvs)"

subsection \<open>The constructor, block by block\<close>

text \<open>\<^verbatim>\<open>_get_template\<close>: the \<^verbatim>\<open>template\<close> attribute when it is there and not \<^verbatim>\<open>None\<close>.\<close>

definition get_template :: "page_class \<Rightarrow> (string \<rightharpoonup> pyval) \<Rightarrow> pyval" where
  "get_template c a =
     (case a ''template'' of
        None \<Rightarrow> PStr (default_template c)
      | Some v \<Rightarrow> if v \<noteq> PNone then v else PStr (default_template c))"

text \<open>Default the author to the one in the settings.\<close>

definition init_author :: "runtime \<Rightarrow> pydict \<Rightarrow> (string \<rightharpoonup> pyval) \<Rightarrow> error + (string \<rightharpoonup> pyval)" where
  "init_author rt st a =
     (if a ''author'' = None then
        (case map_of st ''AUTHOR'' of
           None \<Rightarrow> Inr a
         | Some v \<Rightarrow> ebind (URLWrapper_init rt Author v st) (\<lambda>w. Inr (a(''author'' \<mapsto> PWrapper w))))
      else Inr a)"

text \<open>
  \<^verbatim>\<open>x == t\<close> for a text \<open>t\<close>: text equals text, a \<^verbatim>\<open>URLWrapper\<close> answers through its
  \<^verbatim>\<open>__eq__\<close>, any other value differs.
\<close>

fun py_eq_text :: "pyval \<Rightarrow> string \<Rightarrow> bool" where
  "py_eq_text (PStr s) t = (s = t)"
| "py_eq_text (PWrapper w) t = (name w = t)"
| "py_eq_text _ t = False"

text \<open>Manage languages: the new attributes and the value of \<^verbatim>\<open>in_default_lang\<close>.\<close>

definition init_lang :: "pydict \<Rightarrow> (string \<rightharpoonup> pyval) \<Rightarrow> error + ((string \<rightharpoonup> pyval) \<times> bool)" where
  "init_lang st a =
     (case map_of st ''DEFAULT_LANG'' of
        None \<Rightarrow> Inr (a, True)
      | Some (PStr dl) \<Rightarrow>
          (let default_lang = lower dl
           in (case a ''lang'' of
                 None \<Rightarrow> Inr (a(''lang'' \<mapsto> PStr default_lang), True)
               | Some l \<Rightarrow> Inr (a, py_eq_text l default_lang)))
      | Some _ \<Rightarrow> Inl (AttributeError ''lower''))"

text \<open>Create the slug from the title; \<^verbatim>\<open>slugify\<close> is applied to text only here.\<close>

definition init_slug :: "runtime \<Rightarrow> (string \<rightharpoonup> pyval) \<Rightarrow> error + (string \<rightharpoonup> pyval)" where
  "init_slug rt a =
     (if a ''slug'' = None \<and> a ''title'' \<noteq> None then
        (case a ''title'' of
           Some (PStr t) \<Rightarrow> Inr (a(''slug'' \<mapsto> PStr (slugify rt t)))
         | _ \<Rightarrow> Inl (Unsupported ''title''))
      else Inr a)"

definition init_filename :: "string option \<Rightarrow> (string \<rightharpoonup> pyval) \<Rightarrow> (string \<rightharpoonup> pyval)" where
  "init_filename filename a =
     (case filename of
        None \<Rightarrow> a
      | Some f \<Rightarrow> if f \<noteq> [] then a(''filename'' \<mapsto> PStr f) else a)"

text \<open>
  Manage the date format. \<^verbatim>\<open>self.lang in settings['DATE_FORMATS']\<close> is decided for a
  language that is text (or a \<^verbatim>\<open>URLWrapper\<close>, which hashes and compares as its name)
  and a table that is a dictionary.
\<close>

definition lookup_date_format :: "pydict \<Rightarrow> pyval \<Rightarrow> error + pyval option" where
  "lookup_date_format st l =
     (case map_of st ''DATE_FORMATS'' of
        None \<Rightarrow> Inl (KeyError ''DATE_FORMATS'')
      | Some (PDict d) \<Rightarrow>
          (case l of
             PStr s \<Rightarrow> Inr (map_of d s)
           | PWrapper w \<Rightarrow> Inr (map_of d (name w))
           | _ \<Rightarrow> Inl (Unsupported ''lang''))
      | Some _ \<Rightarrow> Inl (Unsupported ''DATE_FORMATS''))"

definition init_date_format :: "pydict \<Rightarrow> (string \<rightharpoonup> pyval) \<Rightarrow> error + (string \<rightharpoonup> pyval)" where
  "init_date_format st a =
     (if a ''date_format'' = None then
        ebind (case a ''lang'' of None \<Rightarrow> Inr None | Some l \<Rightarrow> lookup_date_format st l)
          (\<lambda>found.
             case found of
               Some f \<Rightarrow> Inr (a(''date_format'' \<mapsto> f))
             | None \<Rightarrow>
                 (case map_of st ''DEFAULT_DATE_FORMAT'' of
                    None \<Rightarrow> Inl (KeyError ''DEFAULT_DATE_FORMAT'')
                  | Some f \<Rightarrow> Inr (a(''date_format'' \<mapsto> f))))
      else Inr a)"

text \<open>
  A format that is a tuple: its first component goes to \<^verbatim>\<open>locale.setlocale\<close>, its
  second becomes the format. The result carries the locale that was set.
\<close>

definition init_locale ::
  "runtime \<Rightarrow> (string \<rightharpoonup> pyval) \<Rightarrow> error + ((string \<rightharpoonup> pyval) \<times> pyval option)" where
  "init_locale rt a =
     (case a ''date_format'' of
        Some (PTuple xs) \<Rightarrow>
          (case xs of
             [] \<Rightarrow> Inl (IndexError ''tuple index out of range'')
           | loc # rest \<Rightarrow>
               (case setlocale rt loc of
                  Some e \<Rightarrow> Inl e
                | None \<Rightarrow>
                    (case rest of
                       [] \<Rightarrow> Inl (IndexError ''tuple index out of range'')
                     | f # _ \<Rightarrow> Inr (a(''date_format'' \<mapsto> f), Some loc))))
      | _ \<Rightarrow> Inr (a, None))"

definition init_locale_date ::
  "runtime \<Rightarrow> pyval option \<Rightarrow> (string \<rightharpoonup> pyval) \<Rightarrow> error + (string \<rightharpoonup> pyval)" where
  "init_locale_date rt loc a =
     (case a ''date'' of
        None \<Rightarrow> Inr a
      | Some (PDate d) \<Rightarrow>
          (case a ''date_format'' of
             Some (PStr f) \<Rightarrow> Inr (a(''locale_date'' \<mapsto> PStr (strftime rt loc d f)))
           | _ \<Rightarrow> Inl (AttributeError ''encode''))
      | Some _ \<Rightarrow> Inl (AttributeError ''strftime''))"

text \<open>Manage status.\<close>

definition init_status :: "runtime \<Rightarrow> pydict \<Rightarrow> (string \<rightharpoonup> pyval) \<Rightarrow> error + (string \<rightharpoonup> pyval)" where
  "init_status rt st a =
     (if a ''status'' = None then
        (case map_of st ''DEFAULT_STATUS'' of
           None \<Rightarrow> Inl (KeyError ''DEFAULT_STATUS'')
         | Some ds \<Rightarrow>
             (case map_of st ''WITH_FUTURE_DATES'' of
                None \<Rightarrow> Inl (KeyError ''WITH_FUTURE_DATES'')
              | Some w \<Rightarrow>
                  if \<not> truthy w then
                    (case a ''date'' of
                       None \<Rightarrow> Inr (a(''status'' \<mapsto> ds))
                     | Some (PDate d) \<Rightarrow>
                         if d > now rt then Inr (a(''status'' \<mapsto> PStr ''draft''))
                         else Inr (a(''status'' \<mapsto> ds))
                     | Some _ \<Rightarrow> Inl (TypeError ''datetime''))
                  else Inr (a(''status'' \<mapsto> ds))))
      else Inr a)"

text \<open>
  \<^verbatim>\<open>Page.__init__(self, content, metadata, settings, filename, context)\<close>, for the class
  \<open>c\<close> that is instantiated. A missing or empty \<^verbatim>\<open>metadata\<close> is the empty dictionary,
  a missing or empty \<^verbatim>\<open>settings\<close> is a copy of \<^verbatim>\<open>_DEFAULT_CONFIG\<close>. The context is only
  stored, and the signal sent last goes to observers outside the module.
\<close>

definition arg_metadata :: "pydict option \<Rightarrow> pydict" where
  "arg_metadata metadata_arg = (case metadata_arg of None \<Rightarrow> [] | Some m \<Rightarrow> m)"

definition arg_settings :: "runtime \<Rightarrow> pydict option \<Rightarrow> pydict" where
  "arg_settings rt settings_arg =
     (case settings_arg of
        None \<Rightarrow> default_config rt
      | Some s \<Rightarrow> if s = [] then default_config rt else s)"

definition default_metadata :: "pydict \<Rightarrow> error + pydict" where
  "default_metadata st =
     py_dict (case map_of st ''DEFAULT_METADATA'' of None \<Rightarrow> PTuple [] | Some v \<Rightarrow> v)"

definition Page_init ::
  "runtime \<Rightarrow> page_class \<Rightarrow> string \<Rightarrow> pydict option \<Rightarrow> pydict option \<Rightarrow> string option
     \<Rightarrow> error + page" where
  "Page_init rt c content metadata_arg settings_arg filename =
     (let md = arg_metadata metadata_arg;
          st = arg_settings rt settings_arg
      in ebind (default_metadata st)
          (\<lambda>dm. let local_metadata = dict_update dm md in
           ebind (set_metadata_attrs Map.empty local_metadata)
          (\<lambda>a0. ebind (init_author rt st (a0(''template'' \<mapsto> get_template c a0)))
          (\<lambda>a2. ebind (init_lang st a2)
          (\<lambda>(a3, default_lang_flag). ebind (init_slug rt a3)
          (\<lambda>a4. ebind (init_date_format st (init_filename filename a4))
          (\<lambda>a6. ebind (init_locale rt a6)
          (\<lambda>(a7, loc). ebind (init_locale_date rt loc a7)
          (\<lambda>a8. ebind (init_status rt st a8)
          (\<lambda>a9. Inr \<lparr>pclass = c, settings = st, content_raw = content,
                      metadata = local_metadata, attrs = a9,
                      in_default_lang = default_lang_flag,
                      summary_attr = map_of md ''summary''\<rparr>))))))))))"

subsection \<open>Validation\<close>

text \<open>\<^verbatim>\<open>check_properties\<close>: the loop over \<^verbatim>\<open>mandatory_properties\<close>.\<close>

fun check_props :: "(string \<rightharpoonup> pyval) \<Rightarrow> string list \<Rightarrow> error + unit" where
  "check_props a [] = Inr ()"
| "check_props a (prop # props) =
     (if a prop = None then Inl (NameError prop) else check_props a props)"

definition check_properties :: "page \<Rightarrow> error + unit" where
  "check_properties p = check_props (attrs p) (mandatory_properties (pclass p))"

definition is_valid_content :: "page \<Rightarrow> bool" where
  "is_valid_content p = (case check_properties p of Inr _ \<Rightarrow> True | Inl _ \<Rightarrow> False)"

subsection \<open>URL and output path\<close>

definition getattr :: "page \<Rightarrow> string \<Rightarrow> pyval \<Rightarrow> pyval" where
  "getattr p k dflt = (case attrs p k of None \<Rightarrow> dflt | Some v \<Rightarrow> v)"

text \<open>
  The property \<^verbatim>\<open>url_format\<close>. The default of \<^verbatim>\<open>category\<close> is evaluated as an
  argument of \<^verbatim>\<open>getattr\<close>, so \<^verbatim>\<open>settings['DEFAULT_CATEGORY']\<close> is read whether or not
  the page has a category.
\<close>

definition url_format :: "runtime \<Rightarrow> page \<Rightarrow> error + pydict" where
  "url_format rt p =
     (case map_of (settings p) ''DEFAULT_CATEGORY'' of
        None \<Rightarrow> Inl (KeyError ''DEFAULT_CATEGORY'')
      | Some dc \<Rightarrow>
          Inr [(''slug'', getattr p ''slug'' (PStr [])),
               (''lang'', getattr p ''lang'' (PStr ''en'')),
               (''date'', getattr p ''date'' (PDate (now rt))),
               (''author'', getattr p ''author'' (PStr [])),
               (''category'', getattr p ''category'' dc)])"

text \<open>\<^verbatim>\<open>_expand_settings\<close>; of the values modelled, only text has a \<^verbatim>\<open>format\<close> method.\<close>

definition expand_settings :: "runtime \<Rightarrow> page \<Rightarrow> string \<Rightarrow> error + string" where
  "expand_settings rt p key =
     (let fq_key = upper (class_name (pclass p) @ ''_'' @ key)
      in (case map_of (settings p) fq_key of
            None \<Rightarrow> Inl (KeyError fq_key)
          | Some (PStr template) \<Rightarrow> ebind (url_format rt p) (\<lambda>kwargs. py_format rt template kwargs)
          | Some _ \<Rightarrow> Inl (AttributeError ''format'')))"

definition get_url_setting :: "runtime \<Rightarrow> page \<Rightarrow> string \<Rightarrow> error + string" where
  "get_url_setting rt p key =
     expand_settings rt p (if in_default_lang p then key else ''lang_'' @ key)"

definition url :: "runtime \<Rightarrow> page \<Rightarrow> error + string" where
  "url rt p = get_url_setting rt p ''url''"


subsection \<open>Paths relative to the content root\<close>

text \<open>
  A path handed to \<^verbatim>\<open>os.path\<close> must be text: another value fails on the first string
  method called on it.
\<close>

definition path_text :: "pyval \<Rightarrow> error + string" where
  "path_text v = (case v of PStr s \<Rightarrow> Inr s | _ \<Rightarrow> Inl (AttributeError ''startswith''))"

definition self_filename :: "page \<Rightarrow> error + pyval" where
  "self_filename p =
     (case attrs p ''filename'' of None \<Rightarrow> Inl (AttributeError ''filename'') | Some v \<Rightarrow> Inr v)"

definition settings_PATH :: "page \<Rightarrow> error + pyval" where
  "settings_PATH p =
     (case map_of (settings p) ''PATH'' of None \<Rightarrow> Inl (KeyError ''PATH'') | Some v \<Rightarrow> Inr v)"

text \<open>\<^verbatim>\<open>get_relative_filename(self, filename=None)\<close>.\<close>

definition get_relative_filename :: "runtime \<Rightarrow> page \<Rightarrow> string option \<Rightarrow> error + string" where
  "get_relative_filename rt p filename =
     ebind (case filename of
              None \<Rightarrow> self_filename p
            | Some f \<Rightarrow> if f = [] then self_filename p else Inr (PStr f))
       (\<lambda>fv. ebind (settings_PATH p)
       (\<lambda>pv. ebind (path_text pv)
       (\<lambda>root. ebind (path_text fv)
       (\<lambda>f. os_path_relpath rt (os_path_abspath rt (os_path_join root f))
                              (os_path_abspath rt root)))))"

text \<open>The property \<^verbatim>\<open>relative_dir\<close>.\<close>

definition relative_dir :: "runtime \<Rightarrow> page \<Rightarrow> error + string" where
  "relative_dir rt p =
     ebind (self_filename p)
       (\<lambda>fv. ebind (path_text fv)
       (\<lambda>f. ebind (settings_PATH p)
       (\<lambda>pv. ebind (path_text pv)
       (\<lambda>root. ebind (os_path_relpath rt (os_path_abspath rt f) (os_path_abspath rt root))
       (\<lambda>r. Inr (os_path_dirname r))))))"

subsection \<open>Link rewriting\<close>

text \<open>
  The key looked up in \<^verbatim>\<open>context['filenames']\<close> for the value of a
  \<^verbatim>\<open>filename\<close> placeholder.
\<close>

definition filename_key :: "runtime \<Rightarrow> page \<Rightarrow> string \<Rightarrow> error + string" where
  "filename_key rt p v =
     (if startswith v ''/'' then Inr (drop 1 v)
      else ebind (relative_dir rt p)
             (\<lambda>rd. get_relative_filename rt p (Some (os_path_join rd v))))"

text \<open>
  The callback \<^verbatim>\<open>replacer(m)\<close> of \<^verbatim>\<open>_update_content\<close>. The warning logged for a key
  that is not in the index leaves no trace in the result and is not modelled.
\<close>

definition replacer :: "runtime \<Rightarrow> site_context option \<Rightarrow> page \<Rightarrow> href_match \<Rightarrow> error + string" where
  "replacer rt ctx p m =
     ebind (if what m = ''filename'' then
              ebind (filename_key rt p (val m))
                (\<lambda>key. case ctx of
                          None \<Rightarrow> Inl (TypeError ''NoneType'')
                        | Some cx \<Rightarrow>
                            (case filenames cx key of
                               Some target \<Rightarrow> url rt target
                             | None \<Rightarrow> Inr (path m)))
            else Inr (path m))
       (\<lambda>origin. Inr (markup m @ [quote m] @ origin @ [quote m]))"

text \<open>\<^verbatim>\<open>_update_content(self, content, siteurl)\<close>.\<close>

definition update_content ::
  "runtime \<Rightarrow> site_context option \<Rightarrow> page \<Rightarrow> string \<Rightarrow> string \<Rightarrow> error + string" where
  "update_content rt ctx p content siteurl = hrefs_sub (replacer rt ctx p) content"

text \<open>
  \<^verbatim>\<open>get_content(self, siteurl)\<close>. The \<^verbatim>\<open>memoized\<close> decorator keeps the result of a
  call for its arguments; the model computes it each time. No class of the module
  defines \<^verbatim>\<open>_get_content\<close>, so the text rewritten is \<^verbatim>\<open>_content\<close>.
\<close>

definition get_content :: "runtime \<Rightarrow> site_context option \<Rightarrow> page \<Rightarrow> string \<Rightarrow> error + string" where
  "get_content rt ctx p siteurl = update_content rt ctx p (content_raw p) siteurl"

definition content :: "runtime \<Rightarrow> site_context option \<Rightarrow> page \<Rightarrow> error + string" where
  "content rt ctx p =
     (case ctx of
        None \<Rightarrow> Inl (TypeError ''NoneType'')
      | Some cx \<Rightarrow> get_content rt ctx p (localsiteurl cx))"

subsection \<open>Summary\<close>

text \<open>\<^verbatim>\<open>_get_summary\<close> and the setter \<^verbatim>\<open>_set_summary\<close>, whose body is \<^verbatim>\<open>pass\<close>.\<close>

definition get_summary :: "runtime \<Rightarrow> site_context option \<Rightarrow> page \<Rightarrow> error + pyval" where
  "get_summary rt ctx p =
     (case summary_attr p of
        Some s \<Rightarrow> Inr s
      | None \<Rightarrow>
          (case map_of (settings p) ''SUMMARY_MAX_LENGTH'' of
             None \<Rightarrow> Inl (KeyError ''SUMMARY_MAX_LENGTH'')
           | Some n \<Rightarrow>
               if truthy n
               then ebind (content rt ctx p)
                      (\<lambda>c. ebind (truncate_html_words rt c n) (\<lambda>s. Inr (PStr s)))
               else ebind (content rt ctx p) (\<lambda>c. Inr (PStr c))))"

definition set_summary :: "page \<Rightarrow> pyval \<Rightarrow> error + page" where
  "set_summary p summary = Inr p"

section \<open>A sample site\<close>

text \<open>
  Concrete values on which the properties below are exercised: a runtime whose
  \<^verbatim>\<open>slugify\<close> lower-cases and whose clock reads 1000, and settings in the shape of the
  package defaults.
\<close>

definition sample_rt :: runtime where
  "sample_rt =
     \<lparr>default_config = [], slugify = lower, truncate_html_words = (\<lambda>s n. Inr (take 5 s)),
      now = 1000, setlocale = (\<lambda>l. None), strftime = (\<lambda>l d f. f), date_str = (\<lambda>d. ''date''),
      getcwd = ''/site'', py_hash = (\<lambda>s. int (length s))\<rparr>"

definition sample_settings :: pydict where
  "sample_settings =
     [(''PATH'', PStr ''/site/content''),
      (''DEFAULT_CATEGORY'', PStr ''misc''),
      (''DEFAULT_STATUS'', PStr ''published''),
      (''DEFAULT_DATE_FORMAT'', PStr ''%a %d %B %Y''),
      (''DATE_FORMATS'', PDict []),
      (''WITH_FUTURE_DATES'', PBool False),
      (''SUMMARY_MAX_LENGTH'', PInt 50),
      (''DEFAULT_LANG'', PStr ''en''),
      (''ARTICLE_URL'', PStr ''{slug}.html''),
      (''ARTICLE_SAVE_AS'', PStr ''{slug}.html''),
      (''ARTICLE_LANG_URL'', PStr ''{lang}/{slug}.html''),
      (''ARTICLE_LANG_SAVE_AS'', PStr ''{slug}-{lang}.html''),
      (''PAGE_URL'', PStr ''pages/{slug}.html''),
      (''PAGE_SAVE_AS'', PStr ''pages/{slug}.html'')]"

section \<open>Inputs on which construction is followed through\<close>

text \<open>
  Settings that carry what the constructor reads, with text where it needs text: the
  date formats, the default status, the switch for future dates, and an author and a
  default language that are text when they are there.
\<close>

fun is_text :: "pyval \<Rightarrow> bool" where
  "is_text (PStr s) = True"
| "is_text _ = False"

definition text_or_absent :: "pydict \<Rightarrow> string \<Rightarrow> bool" where
  "text_or_absent st k = (case map_of st k of None \<Rightarrow> True | Some v \<Rightarrow> is_text v)"

definition settings_for_construction :: "pydict \<Rightarrow> bool" where
  "settings_for_construction st \<longleftrightarrow>
     (case map_of st ''DATE_FORMATS'' of
        Some (PDict d) \<Rightarrow> list_all (\<lambda>(k, f). is_text f) d
      | _ \<Rightarrow> False)
     \<and> (case map_of st ''DEFAULT_DATE_FORMAT'' of None \<Rightarrow> False | Some f \<Rightarrow> is_text f)
     \<and> map_of st ''DEFAULT_STATUS'' \<noteq> None
     \<and> map_of st ''WITH_FUTURE_DATES'' \<noteq> None
     \<and> text_or_absent st ''AUTHOR''
     \<and> text_or_absent st ''DEFAULT_LANG''"

text \<open>
  Metadata whose entries the constructor can take: every key can be set as an
  attribute; a title, a language or a date format, if given, is text (the slug is made
  from the title, the language is compared with the default one, the date format is
  handed to \<^verbatim>\<open>strftime\<close>); a date, if given, is a \<^verbatim>\<open>datetime\<close> (the constructor calls
  its \<^verbatim>\<open>strftime\<close>). Nothing is asked of the presence of any field.
\<close>

definition settable :: "string \<Rightarrow> bool" where
  "settable k \<longleftrightarrow> k \<notin> set readonly_names \<and> k \<notin> set own_names \<and> \<not> startswith k ''_''"

fun is_date :: "pyval \<Rightarrow> bool" where
  "is_date (PDate d) = True"
| "is_date _ = False"

definition metadata_for_construction :: "pydict \<Rightarrow> bool" where
  "metadata_for_construction md =
     list_all (\<lambda>(k, v). settable (lower k)
                 \<and> (if lower k = ''title'' \<or> lower k = ''lang'' \<or> lower k = ''date_format''
                     then is_text v
                     else if lower k = ''date'' then is_date v else True)) md"

text \<open>What the loop over such metadata leaves: text and a date where they are needed.\<close>

definition typed_attrs :: "(string \<rightharpoonup> pyval) \<Rightarrow> bool" where
  "typed_attrs a \<longleftrightarrow>
     (case a ''title'' of None \<Rightarrow> True | Some v \<Rightarrow> is_text v)
     \<and> (case a ''date'' of None \<Rightarrow> True | Some v \<Rightarrow> is_date v)
     \<and> (case a ''lang'' of None \<Rightarrow> True | Some v \<Rightarrow> is_text v)
     \<and> (case a ''date_format'' of None \<Rightarrow> True | Some v \<Rightarrow> is_text v)"

section \<open>The pieces a rewriting pass meets\<close>









section \<open>Sample pages and index\<close>

text \<open>
  An article at \<^verbatim>\<open>/site/content/posts/a.md\<close>; a dated page whose url is
  \<^verbatim>\<open>pages/x.html\<close>; a dated page whose url template holds the date; a page without a
  date with the same template; a page whose url template is itself written as a
  placeholder; a page whose url ends in \<^verbatim>\<open>src=\<close>; the indexes; and a runtime that renders
  a date as its number.
\<close>

definition sample_article :: page where
  "sample_article =
     \<lparr>pclass = Article, settings = sample_settings, content_raw = [], metadata = [],
      attrs = [''filename'' \<mapsto> PStr ''/site/content/posts/a.md'', ''slug'' \<mapsto> PStr ''a''],
      in_default_lang = True, summary_attr = None\<rparr>"

definition sample_target :: page where
  "sample_target =
     \<lparr>pclass = Page, settings = sample_settings, content_raw = [], metadata = [],
      attrs = [''slug'' \<mapsto> PStr ''x'', ''date'' \<mapsto> PDate 10], in_default_lang = True,
      summary_attr = None\<rparr>"

definition dated_archive_target :: page where
  "dated_archive_target =
     \<lparr>pclass = Page,
      settings = [(''PAGE_URL'', PStr ''archive/{date}.html''), (''DEFAULT_CATEGORY'', PStr ''misc'')],
      content_raw = [], metadata = [], attrs = [''date'' \<mapsto> PDate 10], in_default_lang = True,
      summary_attr = None\<rparr>"




definition sample_context :: site_context where
  "sample_context =
     \<lparr>filenames = [''images/x.png'' \<mapsto> sample_target, ''posts/img/x.png'' \<mapsto> sample_target,
                  ''old.md'' \<mapsto> dated_archive_target],
      localsiteurl = ''.''\<rparr>"





section \<open>Properties\<close>

subsection \<open>Equality and hashing of the wrappers\<close>

lemma strip_idem_example: "strip ''foo '' = ''foo''" and strip_plain_example: "strip ''Foo'' = ''Foo''"
  by (simp_all add: strip_def py_isspace_def)

lemma Tag_init_eq: "Tag_init rt nm st = Inr (Wrapper Tag (strip nm) (slugify rt (strip nm)) st)"
  by (simp add: Tag_init_def URLWrapper_init_def)

text \<open>
  C6, as stated: the tags made from \<^verbatim>\<open>"Foo"\<close> and \<^verbatim>\<open>"foo "\<close> compare equal. They do
  not: their names are \<^verbatim>\<open>Foo\<close> and \<^verbatim>\<open>foo\<close>, and \<^verbatim>\<open>__eq__\<close> compares the names as
  they are.
\<close>

theorem tag_case_counterexample:
  "Tag_init sample_rt ''Foo'' [] = Inr (Wrapper Tag ''Foo'' ''foo'' [])
   \<and> Tag_init sample_rt ''foo '' [] = Inr (Wrapper Tag ''foo'' ''foo'' [])
   \<and> URLWrapper_eq sample_rt (Wrapper Tag ''Foo'' ''foo'' [])
        (PWrapper (Wrapper Tag ''foo'' ''foo'' [])) = Inr False"
  by (simp add: Tag_init_eq strip_idem_example strip_plain_example URLWrapper_eq_def
      sample_rt_def lower_def lower_char_def upper_letters_def lower_letters_def)

text \<open>
  C6, amended: two tags whose names agree once the surrounding white space is stripped
  (such as \<^verbatim>\<open>"foo"\<close> and \<^verbatim>\<open>"foo "\<close>) compare equal and have equal hashes, whatever
  their settings: equality and hashing read the stripped name only, and read it with
  its letter case.
\<close>

theorem tag_eq_hash_by_stripped_name:
  assumes "strip n1 = strip n2"
  shows "\<exists>a b. Tag_init rt n1 st1 = Inr a \<and> Tag_init rt n2 st2 = Inr b
           \<and> URLWrapper_eq rt a (PWrapper b) = Inr True
           \<and> URLWrapper_eq rt b (PWrapper a) = Inr True
           \<and> URLWrapper_hash rt a = URLWrapper_hash rt b"
  using assms by (simp add: Tag_init_eq URLWrapper_eq_def URLWrapper_hash_def)

theorem tag_eq_hash_by_stripped_name_witness:
  "strip ''foo'' = strip ''foo ''
   \<and> (\<exists>a b. Tag_init sample_rt ''foo'' [] = Inr a
          \<and> Tag_init sample_rt ''foo '' [(''TAG_URL'', PStr ''tag/{slug}.html'')] = Inr b
          \<and> URLWrapper_eq sample_rt a (PWrapper b) = Inr True
          \<and> URLWrapper_eq sample_rt b (PWrapper a) = Inr True
          \<and> URLWrapper_hash sample_rt a = URLWrapper_hash sample_rt b)"
proof -
  have h: "strip ''foo'' = strip ''foo ''"
    by (simp add: strip_def py_isspace_def)
  from tag_eq_hash_by_stripped_name [OF h, of sample_rt "[]" "[(''TAG_URL'', PStr ''tag/{slug}.html'')]"] h
  show ?thesis by blast
qed

text \<open>
  C10: \<^verbatim>\<open>__eq__\<close> compares the name of the wrapper with the text of the other operand.
  A wrapper equals the plain text that is its name, and a wrapper of any class with the
  same name; against text and against wrappers the answer is exactly the equality of
  the names, the classes and the other fields playing no part.
\<close>

theorem URLWrapper_eq_other_operand:
  "URLWrapper_eq rt w (PStr (name w)) = Inr True
   \<and> URLWrapper_eq rt w (PWrapper (Wrapper c (name w) sl st)) = Inr True
   \<and> URLWrapper_eq rt w (PStr s) = Inr (name w = s)
   \<and> URLWrapper_eq rt w (PWrapper w') = Inr (name w = name w')"
  by (simp add: URLWrapper_eq_def)

theorem URLWrapper_eq_other_operand_witness:
  "URLWrapper_eq sample_rt (Wrapper Category ''misc'' ''misc'' []) (PStr ''misc'') = Inr True
   \<and> URLWrapper_eq sample_rt (Wrapper Category ''misc'' ''misc'' [])
        (PWrapper (Wrapper Author ''misc'' ''other-slug'' [(''AUTHOR_URL'', PNone)])) = Inr True
   \<and> URLWrapper_eq sample_rt (Wrapper Category ''misc'' ''misc'' []) (PStr ''Misc'') = Inr False"
  using URLWrapper_eq_other_operand [of sample_rt "Wrapper Category ''misc'' ''misc'' []"
      Author "''other-slug''" "[(''AUTHOR_URL'', PNone)]" "''Misc''"]
  by simp

subsection \<open>The constructor\<close>

lemma ebind_Inr_iff: "ebind m f = Inr y \<longleftrightarrow> (\<exists>x. m = Inr x \<and> f x = Inr y)"
  by (cases m) (simp_all add: ebind_def)

lemma Page_init_Inr:
  assumes "Page_init rt c body metadata_arg settings_arg filename = Inr p"
  shows "\<exists>dm a0 a2 a3 flag a4 a6 a7 loc a8 a9.
    default_metadata (arg_settings rt settings_arg) = Inr dm
    \<and> set_metadata_attrs Map.empty (dict_update dm (arg_metadata metadata_arg)) = Inr a0
    \<and> init_author rt (arg_settings rt settings_arg) (a0(''template'' \<mapsto> get_template c a0)) = Inr a2
    \<and> init_lang (arg_settings rt settings_arg) a2 = Inr (a3, flag)
    \<and> init_slug rt a3 = Inr a4
    \<and> init_date_format (arg_settings rt settings_arg) (init_filename filename a4) = Inr a6
    \<and> init_locale rt a6 = Inr (a7, loc)
    \<and> init_locale_date rt loc a7 = Inr a8
    \<and> init_status rt (arg_settings rt settings_arg) a8 = Inr a9
    \<and> p = \<lparr>pclass = c, settings = arg_settings rt settings_arg, content_raw = body,
          metadata = dict_update dm (arg_metadata metadata_arg), attrs = a9,
          in_default_lang = flag, summary_attr = map_of (arg_metadata metadata_arg) ''summary''\<rparr>"
  using assms
  by (simp add: Page_init_def Let_def ebind_Inr_iff split: prod.splits) blast

lemma init_author_frame: "init_author rt st a = Inr a' \<Longrightarrow> k \<noteq> ''author'' \<Longrightarrow> a' k = a k"
  by (auto simp: init_author_def ebind_Inr_iff split: if_splits option.splits)

lemma init_lang_frame: "init_lang st a = Inr (a', f) \<Longrightarrow> k \<noteq> ''lang'' \<Longrightarrow> a' k = a k"
  by (auto simp: init_lang_def Let_def split: option.splits pyval.splits)

lemma init_slug_frame: "init_slug rt a = Inr a' \<Longrightarrow> k \<noteq> ''slug'' \<Longrightarrow> a' k = a k"
  by (auto simp: init_slug_def split: if_splits option.splits pyval.splits)

lemma init_filename_frame: "k \<noteq> ''filename'' \<Longrightarrow> init_filename fn a k = a k"
  by (auto simp: init_filename_def split: option.splits)

lemma init_date_format_frame:
  "init_date_format st a = Inr a' \<Longrightarrow> k \<noteq> ''date_format'' \<Longrightarrow> a' k = a k"
  by (auto simp: init_date_format_def ebind_Inr_iff split: if_splits option.splits)

lemma init_locale_frame: "init_locale rt a = Inr (a', loc) \<Longrightarrow> k \<noteq> ''date_format'' \<Longrightarrow> a' k = a k"
  by (auto simp: init_locale_def split: option.splits pyval.splits list.splits)

lemma init_locale_date_frame:
  "init_locale_date rt loc a = Inr a' \<Longrightarrow> k \<noteq> ''locale_date'' \<Longrightarrow> a' k = a k"
  by (auto simp: init_locale_date_def split: option.splits pyval.splits)

lemma init_status_frame: "init_status rt st a = Inr a' \<Longrightarrow> k \<noteq> ''status'' \<Longrightarrow> a' k = a k"
  by (auto simp: init_status_def split: if_splits option.splits pyval.splits)

lemma init_lang_flag:
  assumes "init_lang st a = Inr (a', f)"
  shows "(map_of st ''DEFAULT_LANG'' = None \<longrightarrow> f)
       \<and> (\<forall>dl. map_of st ''DEFAULT_LANG'' = Some dl \<longrightarrow>
             (\<exists>d l. dl = PStr d \<and> a' ''lang'' = Some l \<and> (f \<longleftrightarrow> py_eq_text l (lower d))))"
  using assms by (auto simp: init_lang_def Let_def split: option.splits pyval.splits)

text \<open>
  C4, amended: \<^verbatim>\<open>in_default_lang\<close> is true if and only if the entity's \<^verbatim>\<open>lang\<close>, as it
  stands after construction, equals the lower-cased \<^verbatim>\<open>DEFAULT_LANG\<close> of the settings;
  without a \<^verbatim>\<open>DEFAULT_LANG\<close> it is true.
\<close>

theorem in_default_lang_compares_lang_as_given:
  assumes "Page_init rt c body metadata_arg settings_arg filename = Inr p"
  shows "(map_of (settings p) ''DEFAULT_LANG'' = None \<longrightarrow> in_default_lang p)
       \<and> (\<forall>dl. map_of (settings p) ''DEFAULT_LANG'' = Some dl \<longrightarrow>
             (\<exists>d l. dl = PStr d \<and> attrs p ''lang'' = Some l
                  \<and> (in_default_lang p \<longleftrightarrow> py_eq_text l (lower d))))"
proof -
  from Page_init_Inr [OF assms] obtain dm a0 a2 a3 flag a4 a6 a7 loc a8 a9 where
    lang: "init_lang (arg_settings rt settings_arg) a2 = Inr (a3, flag)"
    and slug: "init_slug rt a3 = Inr a4"
    and fmt: "init_date_format (arg_settings rt settings_arg) (init_filename filename a4) = Inr a6"
    and loc: "init_locale rt a6 = Inr (a7, loc)"
    and ld: "init_locale_date rt loc a7 = Inr a8"
    and status: "init_status rt (arg_settings rt settings_arg) a8 = Inr a9"
    and p: "p = \<lparr>pclass = c, settings = arg_settings rt settings_arg, content_raw = body,
          metadata = dict_update dm (arg_metadata metadata_arg), attrs = a9,
          in_default_lang = flag, summary_attr = map_of (arg_metadata metadata_arg) ''summary''\<rparr>"
    by blast
  have "a9 ''lang'' = a3 ''lang''"
    using init_slug_frame [OF slug, of "''lang''"] init_filename_frame [of "''lang''" filename a4]
      init_date_format_frame [OF fmt, of "''lang''"] init_locale_frame [OF loc, of "''lang''"]
      init_locale_date_frame [OF ld, of "''lang''"] init_status_frame [OF status, of "''lang''"]
    by simp
  with init_lang_flag [OF lang] p show ?thesis by simp
qed

text \<open>
  C4, as stated: the flag compares the lower-cased \<^verbatim>\<open>lang\<close>. With \<^verbatim>\<open>lang\<close> \<^verbatim>\<open>EN\<close> and
  \<^verbatim>\<open>DEFAULT_LANG\<close> \<^verbatim>\<open>en\<close> the two agree once lower-cased, and the flag is false: only
  the setting is lower-cased.
\<close>

theorem lang_case_counterexample:
  "map_sum id in_default_lang
     (Page_init sample_rt Article ''body'' (Some [(''lang'', PStr ''EN'')]) (Some sample_settings) None)
     = Inr False
   \<and> map_of sample_settings ''DEFAULT_LANG'' = Some (PStr ''en'')
   \<and> lower ''EN'' = lower ''en''"
  by code_simp

theorem in_default_lang_compares_lang_as_given_witness:
  "\<exists>p. Page_init sample_rt Article ''body'' (Some [(''lang'', PStr ''en'')]) (Some sample_settings) None = Inr p
      \<and> map_of (settings p) ''DEFAULT_LANG'' = Some (PStr ''en'')
      \<and> attrs p ''lang'' = Some (PStr ''en'')
      \<and> in_default_lang p"
proof -
  have "case Page_init sample_rt Article ''body'' (Some [(''lang'', PStr ''en'')]) (Some sample_settings) None of
          Inl e \<Rightarrow> False
        | Inr p \<Rightarrow> map_of (settings p) ''DEFAULT_LANG'' = Some (PStr ''en'')
                   \<and> attrs p ''lang'' = Some (PStr ''en'')"
    by code_simp
  then obtain p where
    p: "Page_init sample_rt Article ''body'' (Some [(''lang'', PStr ''en'')]) (Some sample_settings) None = Inr p"
    and st: "map_of (settings p) ''DEFAULT_LANG'' = Some (PStr ''en'')"
    and l: "attrs p ''lang'' = Some (PStr ''en'')"
    by (auto split: sum.splits)
  have "lower ''en'' = ''en''" by code_simp
  with in_default_lang_compares_lang_as_given [OF p] st l have "in_default_lang p" by auto
  with p st l show ?thesis by blast
qed

lemma set_metadata_attrs_absent:
  "set_metadata_attrs a lm = Inr a' \<Longrightarrow> a k = None \<Longrightarrow> \<forall>key \<in> fst ` set lm. lower key \<noteq> k
     \<Longrightarrow> a' k = None"
proof (induction lm arbitrary: a)
  case Nil
  then show ?case by simp
next
  case (Cons kv lm)
  obtain key v where kv: "kv = (key, v)" by (cases kv)
  from Cons.prems(1) kv obtain a1 where a1: "setattr a (lower key) v = Inr a1"
    and rest: "set_metadata_attrs a1 lm = Inr a'"
    by (auto split: sum.splits)
  from Cons.prems(3) kv have "lower key \<noteq> k" by simp
  with a1 Cons.prems(2) have "a1 k = None"
    by (auto simp: setattr_def split: if_splits)
  with Cons.IH [OF rest] Cons.prems(3) show ?case by simp
qed

lemma set_metadata_attrs_present:
  "set_metadata_attrs a lm = Inr a' \<Longrightarrow> n \<noteq> ''summary''
     \<Longrightarrow> \<forall>(k', v') \<in> set lm. lower k' = n \<longrightarrow> v' = v
     \<Longrightarrow> (a n = Some v \<or> (\<exists>k. (k, v) \<in> set lm \<and> lower k = n))
     \<Longrightarrow> a' n = Some v"
proof (induction lm arbitrary: a)
  case Nil
  then show ?case by simp
next
  case (Cons kv lm)
  obtain key w where kv: "kv = (key, w)" by (cases kv)
  from Cons.prems(1) kv obtain a1 where a1: "setattr a (lower key) w = Inr a1"
    and rest: "set_metadata_attrs a1 lm = Inr a'"
    by (auto split: sum.splits)
  have all: "\<forall>(k', v') \<in> set lm. lower k' = n \<longrightarrow> v' = v" using Cons.prems(3) by simp
  show ?case
  proof (cases "lower key = n")
    case True
    with Cons.prems(3) kv have "w = v" by simp
    with a1 True Cons.prems(2) have "a1 n = Some v"
      by (auto simp: setattr_def split: if_splits)
    with Cons.IH [OF rest Cons.prems(2) all] show ?thesis by simp
  next
    case False
    with a1 have "a1 n = a n" by (auto simp: setattr_def split: if_splits)
    moreover from False kv Cons.prems(4)
    have "a n = Some v \<or> (\<exists>k. (k, v) \<in> set lm \<and> lower k = n)" by auto
    ultimately show ?thesis using Cons.IH [OF rest Cons.prems(2) all] by simp
  qed
qed

lemma Page_init_status_steps:
  assumes "Page_init rt c body metadata_arg settings_arg filename = Inr p"
  shows "\<exists>a0 a8. set_metadata_attrs Map.empty (metadata p) = Inr a0
          \<and> a8 ''status'' = a0 ''status''
          \<and> init_status rt (settings p) a8 = Inr (attrs p)"
proof -
  from Page_init_Inr [OF assms] obtain dm a0 a2 a3 flag a4 a6 a7 loc a8 a9 where
    a0: "set_metadata_attrs Map.empty (dict_update dm (arg_metadata metadata_arg)) = Inr a0"
    and au: "init_author rt (arg_settings rt settings_arg) (a0(''template'' \<mapsto> get_template c a0)) = Inr a2"
    and lang: "init_lang (arg_settings rt settings_arg) a2 = Inr (a3, flag)"
    and slug: "init_slug rt a3 = Inr a4"
    and fmt: "init_date_format (arg_settings rt settings_arg) (init_filename filename a4) = Inr a6"
    and loc: "init_locale rt a6 = Inr (a7, loc)"
    and ld: "init_locale_date rt loc a7 = Inr a8"
    and status: "init_status rt (arg_settings rt settings_arg) a8 = Inr a9"
    and p: "p = \<lparr>pclass = c, settings = arg_settings rt settings_arg, content_raw = body,
          metadata = dict_update dm (arg_metadata metadata_arg), attrs = a9,
          in_default_lang = flag, summary_attr = map_of (arg_metadata metadata_arg) ''summary''\<rparr>"
    by blast
  have "a8 ''status'' = a0 ''status''"
    using init_author_frame [OF au, of "''status''"] init_lang_frame [OF lang, of "''status''"]
      init_slug_frame [OF slug, of "''status''"] init_filename_frame [of "''status''" filename a4]
      init_date_format_frame [OF fmt, of "''status''"] init_locale_frame [OF loc, of "''status''"]
      init_locale_date_frame [OF ld, of "''status''"]
    by simp
  with a0 status p show ?thesis by auto
qed

lemma init_status_default:
  assumes "init_status rt st a = Inr a'" and "a ''status'' = None"
  shows "\<exists>ds w. map_of st ''DEFAULT_STATUS'' = Some ds \<and> map_of st ''WITH_FUTURE_DATES'' = Some w
           \<and> a' ''status'' =
               Some (if \<not> truthy w \<and> (\<exists>d. a' ''date'' = Some (PDate d) \<and> now rt < d)
                     then PStr ''draft'' else ds)"
  using assms by (auto simp: init_status_def split: if_splits option.splits pyval.splits)

text \<open>
  C5: an entity whose metadata (the defaults of the settings merged with its own) has no
  \<^verbatim>\<open>status\<close> entry, in any letter case, gets \<^verbatim>\<open>draft\<close> when \<^verbatim>\<open>WITH_FUTURE_DATES\<close> is
  false and its date lies after \<^verbatim>\<open>datetime.now()\<close>, whatever \<^verbatim>\<open>DEFAULT_STATUS\<close> is, and
  \<^verbatim>\<open>DEFAULT_STATUS\<close> otherwise.
\<close>

theorem status_default_and_future_draft:
  assumes "Page_init rt c body metadata_arg settings_arg filename = Inr p"
    and "\<forall>k \<in> fst ` set (metadata p). lower k \<noteq> ''status''"
  shows "\<exists>ds w. map_of (settings p) ''DEFAULT_STATUS'' = Some ds
           \<and> map_of (settings p) ''WITH_FUTURE_DATES'' = Some w
           \<and> attrs p ''status'' =
               Some (if \<not> truthy w \<and> (\<exists>d. attrs p ''date'' = Some (PDate d) \<and> now rt < d)
                     then PStr ''draft'' else ds)"
proof -
  from Page_init_status_steps [OF assms(1)] obtain a0 a8 where
    a0: "set_metadata_attrs Map.empty (metadata p) = Inr a0"
    and eq: "a8 ''status'' = a0 ''status''"
    and status: "init_status rt (settings p) a8 = Inr (attrs p)"
    by blast
  from set_metadata_attrs_absent [OF a0 _ assms(2)] have "a0 ''status'' = None" by simp
  with eq have "a8 ''status'' = None" by simp
  from init_status_default [OF status this] show ?thesis .
qed

text \<open>
  C9: a \<^verbatim>\<open>status\<close> supplied by the metadata is the status of the entity after
  construction; the downgrade to \<^verbatim>\<open>draft\<close> does not touch it. The metadata supplies the
  value \<open>v\<close> when it has a \<^verbatim>\<open>status\<close> entry carrying \<open>v\<close> and no entry whose key
  lower-cases to \<^verbatim>\<open>status\<close> carries another value (between two such entries the order
  of the dictionary would decide).
\<close>

theorem explicit_status_is_kept:
  assumes "Page_init rt c body metadata_arg settings_arg filename = Inr p"
    and "(k, v) \<in> set (metadata p)" and "lower k = ''status''"
    and "\<forall>(k', v') \<in> set (metadata p). lower k' = ''status'' \<longrightarrow> v' = v"
  shows "attrs p ''status'' = Some v"
proof -
  from Page_init_status_steps [OF assms(1)] obtain a0 a8 where
    a0: "set_metadata_attrs Map.empty (metadata p) = Inr a0"
    and eq: "a8 ''status'' = a0 ''status''"
    and status: "init_status rt (settings p) a8 = Inr (attrs p)"
    by blast
  have "a0 ''status'' = Some v"
    using set_metadata_attrs_present [OF a0 _ assms(4)] assms(2,3) by auto
  with eq have "a8 ''status'' = Some v" by simp
  with status show ?thesis by (simp add: init_status_def)
qed

theorem status_default_and_future_draft_witness:
  "(\<exists>p. Page_init sample_rt Article ''body'' (Some [(''title'', PStr ''T''), (''date'', PDate 2000)])
            (Some sample_settings) None = Inr p
        \<and> attrs p ''status'' = Some (PStr ''draft''))
   \<and> (\<exists>p. Page_init sample_rt Article ''body'' (Some [(''title'', PStr ''T''), (''date'', PDate 500)])
            (Some sample_settings) None = Inr p
        \<and> attrs p ''status'' = Some (PStr ''published''))"
proof -
  have "case Page_init sample_rt Article ''body'' (Some [(''title'', PStr ''T''), (''date'', PDate 2000)])
               (Some sample_settings) None of
          Inl e \<Rightarrow> False
        | Inr p \<Rightarrow> (\<forall>k \<in> fst ` set (metadata p). lower k \<noteq> ''status'')
                   \<and> map_of (settings p) ''DEFAULT_STATUS'' = Some (PStr ''published'')
                   \<and> map_of (settings p) ''WITH_FUTURE_DATES'' = Some (PBool False)
                   \<and> attrs p ''date'' = Some (PDate 2000)"
    by code_simp
  then obtain p where
    p: "Page_init sample_rt Article ''body'' (Some [(''title'', PStr ''T''), (''date'', PDate 2000)])
          (Some sample_settings) None = Inr p"
    and md: "\<forall>k \<in> fst ` set (metadata p). lower k \<noteq> ''status''"
    and st: "map_of (settings p) ''DEFAULT_STATUS'' = Some (PStr ''published'')"
      "map_of (settings p) ''WITH_FUTURE_DATES'' = Some (PBool False)"
    and d: "attrs p ''date'' = Some (PDate 2000)"
    by (auto split: sum.splits)
  have "now sample_rt = 1000" by (simp add: sample_rt_def)
  with status_default_and_future_draft [OF p md] st d
  have 1: "attrs p ''status'' = Some (PStr ''draft'')" by auto
  have "case Page_init sample_rt Article ''body'' (Some [(''title'', PStr ''T''), (''date'', PDate 500)])
               (Some sample_settings) None of
          Inl e \<Rightarrow> False
        | Inr p \<Rightarrow> (\<forall>k \<in> fst ` set (metadata p). lower k \<noteq> ''status'')
                   \<and> map_of (settings p) ''DEFAULT_STATUS'' = Some (PStr ''published'')
                   \<and> map_of (settings p) ''WITH_FUTURE_DATES'' = Some (PBool False)
                   \<and> attrs p ''date'' = Some (PDate 500)"
    by code_simp
  then obtain q where
    q: "Page_init sample_rt Article ''body'' (Some [(''title'', PStr ''T''), (''date'', PDate 500)])
          (Some sample_settings) None = Inr q"
    and mdq: "\<forall>k \<in> fst ` set (metadata q). lower k \<noteq> ''status''"
    and stq: "map_of (settings q) ''DEFAULT_STATUS'' = Some (PStr ''published'')"
      "map_of (settings q) ''WITH_FUTURE_DATES'' = Some (PBool False)"
    and dq: "attrs q ''date'' = Some (PDate 500)"
    by (auto split: sum.splits)
  from status_default_and_future_draft [OF q mdq] stq dq \<open>now sample_rt = 1000\<close>
  have 2: "attrs q ''status'' = Some (PStr ''published'')" by auto
  from p 1 q 2 show ?thesis by blast
qed

theorem explicit_status_is_kept_witness:
  "\<exists>p. Page_init sample_rt Article ''body''
          (Some [(''title'', PStr ''T''), (''date'', PDate 2000), (''Status'', PStr ''published'')])
          (Some sample_settings) None = Inr p
      \<and> attrs p ''date'' = Some (PDate 2000)
      \<and> attrs p ''status'' = Some (PStr ''published'')"
proof -
  have "case Page_init sample_rt Article ''body''
               (Some [(''title'', PStr ''T''), (''date'', PDate 2000), (''Status'', PStr ''published'')])
               (Some sample_settings) None of
          Inl e \<Rightarrow> False
        | Inr p \<Rightarrow> metadata p = [(''title'', PStr ''T''), (''date'', PDate 2000), (''Status'', PStr ''published'')]
                   \<and> attrs p ''date'' = Some (PDate 2000)"
    by code_simp
  then obtain p where
    p: "Page_init sample_rt Article ''body''
          (Some [(''title'', PStr ''T''), (''date'', PDate 2000), (''Status'', PStr ''published'')])
          (Some sample_settings) None = Inr p"
    and md: "metadata p = [(''title'', PStr ''T''), (''date'', PDate 2000), (''Status'', PStr ''published'')]"
    and d: "attrs p ''date'' = Some (PDate 2000)"
    by (auto split: sum.splits)
  have l: "lower ''Status'' = ''status''" "lower ''title'' \<noteq> ''status''" "lower ''date'' \<noteq> ''status''"
    by code_simp+
  have "attrs p ''status'' = Some (PStr ''published'')"
    by (rule explicit_status_is_kept [OF p, of "''Status''"]) (simp_all add: md l)
  with p d show ?thesis by blast
qed

subsection \<open>Construction without the mandatory fields, and validation\<close>

lemma dict_set_entries: "set (dict_set k v d) \<subseteq> insert (k, v) (set d)"
  by (induction d) (auto split: if_splits)

lemma dict_update_entries: "set (dict_update d other) \<subseteq> set d \<union> set other"
proof -
  have "set (fold (\<lambda>(k, v) acc. dict_set k v acc) other d) \<subseteq> set d \<union> set other" for d
  proof (induction other arbitrary: d)
    case Nil
    then show ?case by simp
  next
    case (Cons kv other)
    obtain k v where kv: "kv = (k, v)" by (cases kv)
    from Cons.IH [of "dict_set k v d"] dict_set_entries [of k v d] kv
    show ?case by auto
  qed
  then show ?thesis by (simp add: dict_update_def)
qed

lemma is_textE: "is_text v \<Longrightarrow> (\<And>s. v = PStr s \<Longrightarrow> P) \<Longrightarrow> P"
  by (cases v) simp_all

lemma map_of_all_text:
  "list_all (\<lambda>(k, f). is_text f) d \<Longrightarrow> map_of d s = Some f \<Longrightarrow> is_text f"
  by (induction d) (auto split: if_splits)

lemma is_dateE: "is_date v \<Longrightarrow> (\<And>d. v = PDate d \<Longrightarrow> P) \<Longrightarrow> P"
  by (cases v) simp_all

lemma metadata_for_construction_update:
  "metadata_for_construction d \<Longrightarrow> metadata_for_construction other
     \<Longrightarrow> metadata_for_construction (dict_update d other)"
  using dict_update_entries [of d other]
  unfolding metadata_for_construction_def list_all_iff by blast

lemma setattr_typed:
  assumes "typed_attrs a" "settable k"
    "k = ''title'' \<or> k = ''lang'' \<or> k = ''date_format'' \<Longrightarrow> is_text v"
    "k = ''date'' \<Longrightarrow> is_date v"
  shows "\<exists>a'. setattr a k v = Inr a' \<and> typed_attrs a'"
  using assms by (auto simp: setattr_def settable_def typed_attrs_def)

lemma set_metadata_attrs_typed:
  "typed_attrs a \<Longrightarrow> metadata_for_construction lm
     \<Longrightarrow> \<exists>a'. set_metadata_attrs a lm = Inr a' \<and> typed_attrs a'"
proof (induction lm arbitrary: a)
  case Nil
  then show ?case by simp
next
  case (Cons kv lm)
  obtain k v where kv: "kv = (k, v)" by (cases kv)
  from Cons.prems(2) kv have k: "settable (lower k)"
    "lower k = ''title'' \<or> lower k = ''lang'' \<or> lower k = ''date_format'' \<Longrightarrow> is_text v"
    "lower k = ''date'' \<Longrightarrow> is_date v"
    and rest: "metadata_for_construction lm"
    by (auto simp: metadata_for_construction_def split: if_splits)
  from setattr_typed [OF Cons.prems(1) k] obtain a1 where
    a1: "setattr a (lower k) v = Inr a1" "typed_attrs a1" by blast
  from Cons.IH [OF a1(2) rest] a1(1) kv show ?case by auto
qed

lemma setattr_keeps:
  "setattr a k v = Inr a' \<Longrightarrow> a n \<noteq> None \<Longrightarrow> a' n \<noteq> None"
  by (auto simp: setattr_def split: if_splits)

lemma set_metadata_attrs_keeps:
  "set_metadata_attrs a lm = Inr a' \<Longrightarrow> a n \<noteq> None \<Longrightarrow> a' n \<noteq> None"
proof (induction lm arbitrary: a)
  case Nil
  then show ?case by simp
next
  case (Cons kv lm)
  obtain k v where kv: "kv = (k, v)" by (cases kv)
  from Cons.prems(1) kv obtain a1 where a1: "setattr a (lower k) v = Inr a1"
    and rest: "set_metadata_attrs a1 lm = Inr a'"
    by (auto split: sum.splits)
  from Cons.IH [OF rest setattr_keeps [OF a1 Cons.prems(2)]] show ?case .
qed

lemma set_metadata_attrs_given:
  "set_metadata_attrs a lm = Inr a' \<Longrightarrow> key \<in> fst ` set lm \<Longrightarrow> lower key \<noteq> ''summary''
     \<Longrightarrow> a' (lower key) \<noteq> None"
proof (induction lm arbitrary: a)
  case Nil
  then show ?case by simp
next
  case (Cons kv lm)
  obtain k v where kv: "kv = (k, v)" by (cases kv)
  from Cons.prems(1) kv obtain a1 where a1: "setattr a (lower k) v = Inr a1"
    and rest: "set_metadata_attrs a1 lm = Inr a'"
    by (auto split: sum.splits)
  show ?case
  proof (cases "key = k")
    case True
    with a1 Cons.prems(3) have "a1 (lower key) \<noteq> None"
      by (auto simp: setattr_def split: if_splits)
    from set_metadata_attrs_keeps [OF rest this] show ?thesis .
  next
    case False
    with Cons.prems(2) kv have "key \<in> fst ` set lm" by auto
    from Cons.IH [OF rest this Cons.prems(3)] show ?thesis .
  qed
qed

lemma set_metadata_attrs_missing_iff:
  assumes "set_metadata_attrs Map.empty lm = Inr a'" and "n \<noteq> ''summary''"
  shows "a' n = None \<longleftrightarrow> (\<forall>key \<in> fst ` set lm. lower key \<noteq> n)"
proof
  assume "a' n = None"
  with set_metadata_attrs_given [OF assms(1)] assms(2)
  show "\<forall>key \<in> fst ` set lm. lower key \<noteq> n" by blast
next
  assume "\<forall>key \<in> fst ` set lm. lower key \<noteq> n"
  from set_metadata_attrs_absent [OF assms(1) _ this] show "a' n = None" by simp
qed

lemma init_author_typed:
  assumes "typed_attrs a" "text_or_absent st ''AUTHOR''"
  shows "\<exists>a'. init_author rt st a = Inr a' \<and> typed_attrs a'"
proof (cases "a ''author'' = None \<and> map_of st ''AUTHOR'' \<noteq> None")
  case False
  with assms(1) show ?thesis by (auto simp: init_author_def)
next
  case True
  then obtain v where v: "map_of st ''AUTHOR'' = Some v" by auto
  with assms(2) have "is_text v" by (simp add: text_or_absent_def)
  then obtain s where "v = PStr s" by (rule is_textE)
  with True v assms(1) show ?thesis
    by (simp add: init_author_def ebind_def URLWrapper_init_def typed_attrs_def)
qed

lemma init_lang_typed:
  assumes "typed_attrs a" "text_or_absent st ''DEFAULT_LANG''"
  shows "\<exists>a' f. init_lang st a = Inr (a', f) \<and> typed_attrs a'"
proof (cases "map_of st ''DEFAULT_LANG''")
  case None
  with assms(1) show ?thesis by (auto simp: init_lang_def)
next
  case (Some v)
  with assms(2) have "is_text v" by (simp add: text_or_absent_def)
  then obtain s where "v = PStr s" by (rule is_textE)
  with Some assms(1) show ?thesis
    by (cases "a ''lang''") (auto simp: init_lang_def Let_def typed_attrs_def)
qed

lemma init_slug_typed:
  assumes "typed_attrs a"
  shows "\<exists>a'. init_slug rt a = Inr a' \<and> typed_attrs a'"
proof (cases "a ''slug'' = None \<and> a ''title'' \<noteq> None")
  case False
  with assms show ?thesis by (auto simp: init_slug_def)
next
  case True
  then obtain v where v: "a ''title'' = Some v" by auto
  with assms have "is_text v" by (simp add: typed_attrs_def)
  then obtain s where "v = PStr s" by (rule is_textE)
  with True v assms show ?thesis by (simp add: init_slug_def typed_attrs_def)
qed

lemma init_filename_typed: "typed_attrs a \<Longrightarrow> typed_attrs (init_filename fn a)"
  by (cases fn) (simp_all add: init_filename_def typed_attrs_def)

lemma init_date_format_typed:
  assumes "typed_attrs a" "settings_for_construction st"
  shows "\<exists>a' f. init_date_format st a = Inr a' \<and> typed_attrs a' \<and> a' ''date_format'' = Some (PStr f)"
proof (cases "a ''date_format''")
  case (Some v)
  with assms(1) have "is_text v" by (simp add: typed_attrs_def)
  then obtain s where "v = PStr s" by (rule is_textE)
  with Some assms(1) show ?thesis by (simp add: init_date_format_def)
next
  case None
  from assms(2) obtain dv fv where dv: "map_of st ''DATE_FORMATS'' = Some dv"
    and fv: "map_of st ''DEFAULT_DATE_FORMAT'' = Some fv" "is_text fv"
    by (auto simp: settings_for_construction_def split: option.splits)
  from assms(2) dv obtain d where d: "dv = PDict d" "list_all (\<lambda>(k, f). is_text f) d"
    by (cases dv) (simp_all add: settings_for_construction_def)
  from fv(2) obtain f where f: "fv = PStr f" by (rule is_textE)
  have dflt: "\<exists>a' f. Inr (a(''date_format'' \<mapsto> PStr g)) = Inr a' \<and> typed_attrs a'
                \<and> a' ''date_format'' = Some (PStr f)" for g
    using assms(1) by (simp add: typed_attrs_def)
  show ?thesis
  proof (cases "a ''lang''")
    case n: None
    with None fv(1) f dflt [of f] show ?thesis
      by (simp add: init_date_format_def ebind_def)
  next
    case (Some l)
    with assms(1) have "is_text l" by (simp add: typed_attrs_def)
    then obtain s where l: "l = PStr s" by (rule is_textE)
    show ?thesis
    proof (cases "map_of d s")
      case n: None
      with None Some l dv d(1) fv(1) f dflt [of f] show ?thesis
        by (simp add: init_date_format_def ebind_def lookup_date_format_def)
    next
      case s: (Some g)
      from map_of_all_text [OF d(2) s] obtain t where "g = PStr t" by (rule is_textE)
      with s None Some l dv d(1) dflt [of t] show ?thesis
        by (simp add: init_date_format_def ebind_def lookup_date_format_def)
    qed
  qed
qed

lemma init_tail_typed:
  assumes "typed_attrs a" "a ''date_format'' = Some (PStr f)" "settings_for_construction st"
  shows "\<exists>a8 a9. init_locale rt a = Inr (a, None) \<and> init_locale_date rt None a = Inr a8
            \<and> init_status rt st a8 = Inr a9"
proof -
  from assms(3) obtain ds w where st: "map_of st ''DEFAULT_STATUS'' = Some ds"
    "map_of st ''WITH_FUTURE_DATES'' = Some w"
    by (auto simp: settings_for_construction_def)
  have 1: "init_locale rt a = Inr (a, None)" using assms(2) by (simp add: init_locale_def)
  show ?thesis
  proof (cases "a ''date''")
    case None
    then have 2: "init_locale_date rt None a = Inr a" by (simp add: init_locale_date_def)
    have "\<exists>a9. init_status rt st a = Inr a9"
      using None st by (cases "a ''status''") (simp_all add: init_status_def)
    with 1 2 show ?thesis by blast
  next
    case (Some v)
    with assms(1) have "is_date v" by (simp add: typed_attrs_def)
    then obtain d where d: "v = PDate d" by (rule is_dateE)
    let ?a8 = "a(''locale_date'' \<mapsto> PStr (strftime rt None d f))"
    from Some d assms(2) have 2: "init_locale_date rt None a = Inr ?a8"
      by (simp add: init_locale_date_def)
    have "\<exists>a9. init_status rt st ?a8 = Inr a9"
      using Some d st by (cases "a ''status''") (simp_all add: init_status_def)
    with 1 2 show ?thesis by blast
  qed
qed

lemma check_properties_Article:
  "pclass q = Article \<Longrightarrow>
     check_properties q =
       (if attrs q ''title'' = None then Inl (NameError ''title'')
        else if attrs q ''date'' = None then Inl (NameError ''date'')
        else if attrs q ''category'' = None then Inl (NameError ''category'')
        else Inr ())"
  by (simp add: check_properties_def)

lemma check_properties_no_title:
  "attrs p ''title'' = None \<Longrightarrow> check_properties p = Inl (NameError ''title'')"
  by (cases "pclass p") (simp_all add: check_properties_def)

text \<open>
  C3: construction never looks at the mandatory fields. On settings that carry what the
  constructor reads and metadata whose entries it can take, whichever of \<^verbatim>\<open>title\<close>,
  \<^verbatim>\<open>date\<close> and \<^verbatim>\<open>category\<close> they hold, \<^verbatim>\<open>Page.__init__\<close> returns an entity of the
  class asked for, and a mandatory field of an article is missing from the entity
  exactly when no key of the metadata lower-cases to it. Only \<^verbatim>\<open>check_properties\<close>
  fails: on any article with the \<^verbatim>\<open>NameError\<close> naming the first field missing in the
  order \<^verbatim>\<open>title\<close>, \<^verbatim>\<open>date\<close>, \<^verbatim>\<open>category\<close>, and not at all when none is missing.
\<close>

theorem lenient_construction_ordered_validation:
  assumes "settings_for_construction (arg_settings rt settings_arg)"
    and "default_metadata (arg_settings rt settings_arg) = Inr dm"
    and "metadata_for_construction dm"
    and "metadata_for_construction (arg_metadata metadata_arg)"
  shows "(\<exists>p. Page_init rt c body metadata_arg settings_arg filename = Inr p
            \<and> pclass p = c
            \<and> metadata p = dict_update dm (arg_metadata metadata_arg)
            \<and> (\<forall>k \<in> set (mandatory_properties Article).
                  attrs p k = None \<longleftrightarrow> (\<forall>key \<in> fst ` set (metadata p). lower key \<noteq> k)))
       \<and> (\<forall>q. attrs q ''title'' = None \<longrightarrow> check_properties q = Inl (NameError ''title''))
       \<and> (\<forall>q. pclass q = Article \<longrightarrow>
             check_properties q =
               (if attrs q ''title'' = None then Inl (NameError ''title'')
                else if attrs q ''date'' = None then Inl (NameError ''date'')
                else if attrs q ''category'' = None then Inl (NameError ''category'')
                else Inr ()))"
proof -
  let ?st = "arg_settings rt settings_arg"
  let ?lm = "dict_update dm (arg_metadata metadata_arg)"
  have st: "text_or_absent ?st ''AUTHOR''" "text_or_absent ?st ''DEFAULT_LANG''"
    using assms(1) by (simp_all add: settings_for_construction_def)
  have "typed_attrs Map.empty" by (simp add: typed_attrs_def)
  from set_metadata_attrs_typed [OF this metadata_for_construction_update [OF assms(3,4)]]
  obtain a0 where a0: "set_metadata_attrs Map.empty ?lm = Inr a0" "typed_attrs a0" by blast
  from a0(2) have "typed_attrs (a0(''template'' \<mapsto> get_template c a0))"
    by (simp add: typed_attrs_def)
  from init_author_typed [OF this st(1)] obtain a2 where
    a2: "init_author rt ?st (a0(''template'' \<mapsto> get_template c a0)) = Inr a2" "typed_attrs a2"
    by blast
  from init_lang_typed [OF a2(2) st(2)] obtain a3 flag where
    a3: "init_lang ?st a2 = Inr (a3, flag)" "typed_attrs a3" by blast
  from init_slug_typed [OF a3(2)] obtain a4 where
    a4: "init_slug rt a3 = Inr a4" "typed_attrs a4" by blast
  from init_date_format_typed [OF init_filename_typed [OF a4(2)] assms(1)]
  obtain a6 f where a6: "init_date_format ?st (init_filename filename a4) = Inr a6"
    "typed_attrs a6" "a6 ''date_format'' = Some (PStr f)" by blast
  from init_tail_typed [OF a6(2,3) assms(1)] obtain a8 a9 where
    a7: "init_locale rt a6 = Inr (a6, None)" and a8: "init_locale_date rt None a6 = Inr a8"
    and a9: "init_status rt ?st a8 = Inr a9"
    by blast
  have same: "a9 k = a0 k" if "k \<in> set (mandatory_properties Article)" for k
  proof -
    from that have k: "k \<noteq> ''template''" "k \<noteq> ''author''" "k \<noteq> ''lang''" "k \<noteq> ''slug''"
      "k \<noteq> ''filename''" "k \<noteq> ''date_format''" "k \<noteq> ''locale_date''" "k \<noteq> ''status''"
      by auto
    show ?thesis
      using init_author_frame [OF a2(1) k(2)] init_lang_frame [OF a3(1) k(3)]
        init_slug_frame [OF a4(1) k(4)] init_filename_frame [OF k(5), of filename a4]
        init_date_format_frame [OF a6(1) k(6)] init_locale_date_frame [OF a8 k(7)]
        init_status_frame [OF a9 k(8)] k(1)
      by simp
  qed
  have missing: "a9 k = None \<longleftrightarrow> (\<forall>key \<in> fst ` set ?lm. lower key \<noteq> k)"
    if "k \<in> set (mandatory_properties Article)" for k
  proof -
    from that have "k \<noteq> ''summary''" by auto
    from set_metadata_attrs_missing_iff [OF a0(1) this] same [OF that] show ?thesis by simp
  qed
  let ?p = "\<lparr>pclass = c, settings = ?st, content_raw = body, metadata = ?lm, attrs = a9,
             in_default_lang = flag,
             summary_attr = map_of (arg_metadata metadata_arg) ''summary''\<rparr>"
  have "Page_init rt c body metadata_arg settings_arg filename = Inr ?p"
    by (simp add: Page_init_def Let_def ebind_def assms(2) a0(1) a2(1) a3(1) a4(1) a6(1) a7 a8 a9)
  then have "\<exists>p. Page_init rt c body metadata_arg settings_arg filename = Inr p
            \<and> pclass p = c
            \<and> metadata p = dict_update dm (arg_metadata metadata_arg)
            \<and> (\<forall>k \<in> set (mandatory_properties Article).
                  attrs p k = None \<longleftrightarrow> (\<forall>key \<in> fst ` set (metadata p). lower key \<noteq> k))"
    using missing by (intro exI [of _ ?p]) simp
  then show ?thesis using check_properties_Article check_properties_no_title by blast
qed

theorem lenient_construction_ordered_validation_witness:
  "(\<exists>p. Page_init sample_rt Article ''body'' (Some [(''Tags'', PList [PStr ''a'', PStr ''b'']), (''lang'', PStr ''fr'')]) (Some sample_settings) None = Inr p
        \<and> check_properties p = Inl (NameError ''title''))
   \<and> (\<exists>p. Page_init sample_rt Article ''body'' (Some [(''Title'', PStr ''T'')]) (Some sample_settings) None = Inr p
        \<and> check_properties p = Inl (NameError ''date''))
   \<and> (\<exists>p. Page_init sample_rt Article ''body'' (Some [(''title'', PStr ''T''), (''date'', PDate 2000)]) (Some sample_settings) None = Inr p
        \<and> check_properties p = Inl (NameError ''category''))
   \<and> (\<exists>p. Page_init sample_rt Article ''body'' (Some [(''title'', PStr ''T''), (''date'', PDate 5), (''category'', PStr ''c'')]) (Some sample_settings) None = Inr p
        \<and> check_properties p = Inr ())"
proof -
  have h1: "settings_for_construction (arg_settings sample_rt (Some sample_settings))"
    by code_simp
  have h2: "default_metadata (arg_settings sample_rt (Some sample_settings)) = Inr []"
    by code_simp
  have h3: "metadata_for_construction []"
    by (simp add: metadata_for_construction_def)
  have h0: "metadata_for_construction (arg_metadata None)"
    by (simp add: arg_metadata_def metadata_for_construction_def)
  have ordered: "pclass q = Article \<Longrightarrow>
             check_properties q =
               (if attrs q ''title'' = None then Inl (NameError ''title'')
                else if attrs q ''date'' = None then Inl (NameError ''date'')
                else if attrs q ''category'' = None then Inl (NameError ''category'')
                else Inr ())" for q
    using lenient_construction_ordered_validation [OF h1 h2 h3 h0, of Article "''body''" None]
    by blast

  have m1: "metadata_for_construction (arg_metadata (Some [(''Tags'', PList [PStr ''a'', PStr ''b'']), (''lang'', PStr ''fr'')]))"
    by code_simp
  have ab1_title: "\<forall>key \<in> fst ` set (dict_update [] (arg_metadata (Some [(''Tags'', PList [PStr ''a'', PStr ''b'']), (''lang'', PStr ''fr'')]))). lower key \<noteq> ''title''"
    by code_simp
  have ab1_date: "\<forall>key \<in> fst ` set (dict_update [] (arg_metadata (Some [(''Tags'', PList [PStr ''a'', PStr ''b'']), (''lang'', PStr ''fr'')]))). lower key \<noteq> ''date''"
    by code_simp
  have ab1_category: "\<forall>key \<in> fst ` set (dict_update [] (arg_metadata (Some [(''Tags'', PList [PStr ''a'', PStr ''b'']), (''lang'', PStr ''fr'')]))). lower key \<noteq> ''category''"
    by code_simp
  from lenient_construction_ordered_validation [OF h1 h2 h3 m1, of Article "''body''" None]
  obtain p1 where p1: "Page_init sample_rt Article ''body'' (Some [(''Tags'', PList [PStr ''a'', PStr ''b'']), (''lang'', PStr ''fr'')]) (Some sample_settings) None = Inr p1"
    and c1: "pclass p1 = Article"
    and md1: "metadata p1 = dict_update [] (arg_metadata (Some [(''Tags'', PList [PStr ''a'', PStr ''b'']), (''lang'', PStr ''fr'')]))"
    and miss1: "\<forall>k \<in> set (mandatory_properties Article).
                  attrs p1 k = None \<longleftrightarrow> (\<forall>key \<in> fst ` set (metadata p1). lower key \<noteq> k)"
    by blast
  from miss1 md1 ab1_title ab1_date ab1_category
  have at1: "attrs p1 ''title'' = None" "attrs p1 ''date'' = None" "attrs p1 ''category'' = None"
    by simp_all
  from ordered [OF c1] at1 have r1: "check_properties p1 = Inl (NameError ''title'')" by simp

  have m2: "metadata_for_construction (arg_metadata (Some [(''Title'', PStr ''T'')]))"
    by code_simp
  have pr2_title: "\<not> (\<forall>key \<in> fst ` set (dict_update [] (arg_metadata (Some [(''Title'', PStr ''T'')]))). lower key \<noteq> ''title'')"
    by code_simp
  have ab2_date: "\<forall>key \<in> fst ` set (dict_update [] (arg_metadata (Some [(''Title'', PStr ''T'')]))). lower key \<noteq> ''date''"
    by code_simp
  have ab2_category: "\<forall>key \<in> fst ` set (dict_update [] (arg_metadata (Some [(''Title'', PStr ''T'')]))). lower key \<noteq> ''category''"
    by code_simp
  from lenient_construction_ordered_validation [OF h1 h2 h3 m2, of Article "''body''" None]
  obtain p2 where p2: "Page_init sample_rt Article ''body'' (Some [(''Title'', PStr ''T'')]) (Some sample_settings) None = Inr p2"
    and c2: "pclass p2 = Article"
    and md2: "metadata p2 = dict_update [] (arg_metadata (Some [(''Title'', PStr ''T'')]))"
    and miss2: "\<forall>k \<in> set (mandatory_properties Article).
                  attrs p2 k = None \<longleftrightarrow> (\<forall>key \<in> fst ` set (metadata p2). lower key \<noteq> k)"
    by blast
  from miss2 md2 pr2_title ab2_date ab2_category
  have at2: "attrs p2 ''title'' \<noteq> None" "attrs p2 ''date'' = None" "attrs p2 ''category'' = None"
    by simp_all
  from ordered [OF c2] at2 have r2: "check_properties p2 = Inl (NameError ''date'')" by simp

  have m3: "metadata_for_construction (arg_metadata (Some [(''title'', PStr ''T''), (''date'', PDate 2000)]))"
    by code_simp
  have pr3_title: "\<not> (\<forall>key \<in> fst ` set (dict_update [] (arg_metadata (Some [(''title'', PStr ''T''), (''date'', PDate 2000)]))). lower key \<noteq> ''title'')"
    by code_simp
  have pr3_date: "\<not> (\<forall>key \<in> fst ` set (dict_update [] (arg_metadata (Some [(''title'', PStr ''T''), (''date'', PDate 2000)]))). lower key \<noteq> ''date'')"
    by code_simp
  have ab3_category: "\<forall>key \<in> fst ` set (dict_update [] (arg_metadata (Some [(''title'', PStr ''T''), (''date'', PDate 2000)]))). lower key \<noteq> ''category''"
    by code_simp
  from lenient_construction_ordered_validation [OF h1 h2 h3 m3, of Article "''body''" None]
  obtain p3 where p3: "Page_init sample_rt Article ''body'' (Some [(''title'', PStr ''T''), (''date'', PDate 2000)]) (Some sample_settings) None = Inr p3"
    and c3: "pclass p3 = Article"
    and md3: "metadata p3 = dict_update [] (arg_metadata (Some [(''title'', PStr ''T''), (''date'', PDate 2000)]))"
    and miss3: "\<forall>k \<in> set (mandatory_properties Article).
                  attrs p3 k = None \<longleftrightarrow> (\<forall>key \<in> fst ` set (metadata p3). lower key \<noteq> k)"
    by blast
  from miss3 md3 pr3_title pr3_date ab3_category
  have at3: "attrs p3 ''title'' \<noteq> None" "attrs p3 ''date'' \<noteq> None" "attrs p3 ''category'' = None"
    by simp_all
  from ordered [OF c3] at3 have r3: "check_properties p3 = Inl (NameError ''category'')" by simp

  have m4: "metadata_for_construction (arg_metadata (Some [(''title'', PStr ''T''), (''date'', PDate 5), (''category'', PStr ''c'')]))"
    by code_simp
  have pr4_title: "\<not> (\<forall>key \<in> fst ` set (dict_update [] (arg_metadata (Some [(''title'', PStr ''T''), (''date'', PDate 5), (''category'', PStr ''c'')]))). lower key \<noteq> ''title'')"
    by code_simp
  have pr4_date: "\<not> (\<forall>key \<in> fst ` set (dict_update [] (arg_metadata (Some [(''title'', PStr ''T''), (''date'', PDate 5), (''category'', PStr ''c'')]))). lower key \<noteq> ''date'')"
    by code_simp
  have pr4_category: "\<not> (\<forall>key \<in> fst ` set (dict_update [] (arg_metadata (Some [(''title'', PStr ''T''), (''date'', PDate 5), (''category'', PStr ''c'')]))). lower key \<noteq> ''category'')"
    by code_simp
  from lenient_construction_ordered_validation [OF h1 h2 h3 m4, of Article "''body''" None]
  obtain p4 where p4: "Page_init sample_rt Article ''body'' (Some [(''title'', PStr ''T''), (''date'', PDate 5), (''category'', PStr ''c'')]) (Some sample_settings) None = Inr p4"
    and c4: "pclass p4 = Article"
    and md4: "metadata p4 = dict_update [] (arg_metadata (Some [(''title'', PStr ''T''), (''date'', PDate 5), (''category'', PStr ''c'')]))"
    and miss4: "\<forall>k \<in> set (mandatory_properties Article).
                  attrs p4 k = None \<longleftrightarrow> (\<forall>key \<in> fst ` set (metadata p4). lower key \<noteq> k)"
    by blast
  from miss4 md4 pr4_title pr4_date pr4_category
  have at4: "attrs p4 ''title'' \<noteq> None" "attrs p4 ''date'' \<noteq> None" "attrs p4 ''category'' \<noteq> None"
    by simp_all
  from ordered [OF c4] at4 have r4: "check_properties p4 = Inr ()" by simp
  from p1 r1 p2 r2 p3 r3 p4 r4 show ?thesis by blast
qed

subsection \<open>Summary\<close>

lemma Page_init_summary_attr:
  assumes "Page_init rt c body metadata_arg settings_arg filename = Inr p"
  shows "summary_attr p = map_of (arg_metadata metadata_arg) ''summary''"
  using Page_init_Inr [OF assms] by auto

text \<open>
  C7: when the metadata handed to the constructor has a \<^verbatim>\<open>summary\<close> key, the
  \<^verbatim>\<open>summary\<close> property returns that value as it is, whatever
  \<^verbatim>\<open>SUMMARY_MAX_LENGTH\<close> is (the settings are not read), and an assignment to the
  property returns normally with the entity unchanged, so the summary read afterwards is
  the same.
\<close>

theorem explicit_summary_verbatim_setter_noop:
  assumes "Page_init rt c body (Some md) settings_arg filename = Inr p"
    and "map_of md ''summary'' = Some s"
  shows "get_summary rt ctx p = Inr s
       \<and> set_summary p v = Inr p
       \<and> ebind (set_summary p v) (get_summary rt ctx) = Inr s"
  using Page_init_summary_attr [OF assms(1)] assms(2)
  by (simp add: get_summary_def set_summary_def ebind_def arg_metadata_def)

theorem explicit_summary_verbatim_setter_noop_witness:
  "\<exists>p. Page_init sample_rt Article ''<p>the whole body of the article</p>''
          (Some [(''title'', PStr ''T''), (''summary'', PStr ''An explicit summary, longer than five'')])
          (Some sample_settings) None = Inr p
      \<and> map_of (settings p) ''SUMMARY_MAX_LENGTH'' = Some (PInt 50)
      \<and> get_summary sample_rt None p = Inr (PStr ''An explicit summary, longer than five'')
      \<and> set_summary p (PStr ''another'') = Inr p
      \<and> ebind (set_summary p (PStr ''another'')) (get_summary sample_rt None)
           = Inr (PStr ''An explicit summary, longer than five'')"
proof -
  let ?md = "[(''title'', PStr ''T''), (''summary'', PStr ''An explicit summary, longer than five'')]"
  have "case Page_init sample_rt Article ''<p>the whole body of the article</p>'' (Some ?md)
               (Some sample_settings) None of
          Inl e \<Rightarrow> False
        | Inr p \<Rightarrow> map_of (settings p) ''SUMMARY_MAX_LENGTH'' = Some (PInt 50)"
    by code_simp
  then obtain p where p: "Page_init sample_rt Article ''<p>the whole body of the article</p>''
        (Some ?md) (Some sample_settings) None = Inr p"
    and n: "map_of (settings p) ''SUMMARY_MAX_LENGTH'' = Some (PInt 50)"
    by (auto split: sum.splits)
  have s: "map_of ?md ''summary'' = Some (PStr ''An explicit summary, longer than five'')"
    by simp
  from explicit_summary_verbatim_setter_noop [OF p s, where ctx = None and v = "PStr ''another''"] p n
  show ?thesis by blast
qed

subsection \<open>URL and output path from the settings\<close>








subsection \<open>The matcher and the scan\<close>









subsection \<open>Link rewriting\<close>





text \<open>
  C1: a \<^verbatim>\<open>|filename|\<close> placeholder in a quoted \<^verbatim>\<open>href\<close> whose key is in
  \<^verbatim>\<open>context['filenames']\<close> is replaced by the url of the target when it is the only
  placeholder of its tag, and is left as it is in two cases the pattern misses. The
  markup group \<^verbatim>\<open><\s*[^\>]*(?:href|src)\s*=\<close> is greedy, so in a tag with two
  placeholder attributes it runs up to the last one and the tag is matched once: the
  first placeholder stays in the output. And \<^verbatim>\<open>[^\>]*\<close> stops at a \<^verbatim>\<open>>\<close> inside an
  earlier attribute of the tag, so the placeholder behind it is not matched at all.
  The key \<^verbatim>\<open>images/x.png\<close> is in the index in all four runs.
\<close>

theorem placeholder_beside_another_attribute_unresolved:
  \<open>filename_key sample_rt sample_article ''/images/x.png'' = Inr ''images/x.png''
   \<and> filenames sample_context ''images/x.png'' = Some sample_target
   \<and> url sample_rt sample_target = Inr ''pages/x.html''
   \<and> update_content sample_rt (Some sample_context) sample_article
        ''<a href="|filename|/images/x.png">'' ''.''
       = Inr ''<a href="pages/x.html">''
   \<and> update_content sample_rt (Some sample_context) sample_article
        ''<a href="|filename|/images/x.png" src="|filename|/images/x.png">'' ''.''
       = Inr ''<a href="|filename|/images/x.png" src="pages/x.html">''
   \<and> update_content sample_rt (Some sample_context) sample_article
        ''<img alt="x" src="|filename|/images/x.png">'' ''.''
       = Inr ''<img alt="x" src="pages/x.html">''
   \<and> update_content sample_rt (Some sample_context) sample_article
        ''<img alt=">" src="|filename|/images/x.png">'' ''.''
       = Inr ''<img alt=">" src="|filename|/images/x.png">''\<close>
proof -
  have indexed: "filenames sample_context ''images/x.png'' = Some sample_target"
    by (simp add: sample_context_def)
  have runs: \<open>filename_key sample_rt sample_article ''/images/x.png'' = Inr ''images/x.png''
   \<and> url sample_rt sample_target = Inr ''pages/x.html''
   \<and> update_content sample_rt (Some sample_context) sample_article
        ''<a href="|filename|/images/x.png">'' ''.''
       = Inr ''<a href="pages/x.html">''
   \<and> update_content sample_rt (Some sample_context) sample_article
        ''<a href="|filename|/images/x.png" src="|filename|/images/x.png">'' ''.''
       = Inr ''<a href="|filename|/images/x.png" src="pages/x.html">''
   \<and> update_content sample_rt (Some sample_context) sample_article
        ''<img alt="x" src="|filename|/images/x.png">'' ''.''
       = Inr ''<img alt="x" src="pages/x.html">''
   \<and> update_content sample_rt (Some sample_context) sample_article
        ''<img alt=">" src="|filename|/images/x.png">'' ''.''
       = Inr ''<img alt=">" src="|filename|/images/x.png">''\<close>
    by code_simp
  from indexed runs show ?thesis by blast
qed

subsection \<open>A second pass and the clock\<close>


























end
